theory Spec2Isabelle
  imports Complex_Main "HOL-Library.Word"
begin

section \<open>JavaScript values used by the webhook pipeline\<close>

text \<open>
  Conventions of the embedding.
  \<^item> A JavaScript \<open>string | undefined\<close> is a \<open>string option\<close>; a string is the list of its
    bytes in UTF-8, which is what \<open>Buffer.from\<close> and \<open>hmac.update\<close> read of it. \<open>truthy\<close>
    is JavaScript truthiness on such a value: \<open>undefined\<close> and the empty string are falsy.
  \<^item> A JavaScript \<open>number\<close> is a \<open>real\<close> (rounding of doubles, NaN and the infinities are
    not represented); the counts \<open>maxRetries\<close> and \<open>attempt\<close> are integers.
  \<^item> Record fields keep the names of the source; where two interfaces of the source share
    a field name, the later record prefixes it (\<open>vr_\<close> validation result, \<open>att_\<close> retry
    attempt, \<open>dlv_\<close> delivery, \<open>res_\<close> processing result, \<open>os_\<close> OAuth state).
\<close>

definition truthy :: "string option \<Rightarrow> bool" where
  "truthy v = (case v of None \<Rightarrow> False | Some s \<Rightarrow> s \<noteq> [])"

text \<open>\<open>a || b\<close> on optional strings.\<close>

definition js_or :: "string option \<Rightarrow> string option \<Rightarrow> string option" where
  "js_or a b = (if truthy a then a else b)"

text \<open>\<open>a || d\<close> where \<open>d\<close> is a string literal.\<close>

definition or_default :: "string option \<Rightarrow> string \<Rightarrow> string" where
  "or_default a d = (case a of None \<Rightarrow> d | Some s \<Rightarrow> if s = [] then d else s)"

text \<open>\<open>String.prototype.toLowerCase\<close> on the ASCII letters.\<close>

definition lower_char :: "char \<Rightarrow> char" where
  "lower_char c =
     (case map_of (zip ''ABCDEFGHIJKLMNOPQRSTUVWXYZ'' ''abcdefghijklmnopqrstuvwxyz'') c of
        None \<Rightarrow> c
      | Some l \<Rightarrow> l)"

definition toLowerCase :: "string \<Rightarrow> string" where
  "toLowerCase s = map lower_char s"

datatype js_error = RangeError string | TypeError string | Error string

fun error_message :: "js_error \<Rightarrow> string" where
  "error_message (RangeError m) = m"
| "error_message (TypeError m) = m"
| "error_message (Error m) = m"

text \<open>
  The parsed body is \<open>any\<close> in the source. The validator only looks at its truthiness, at
  whether it is an object, and at four of its fields, which it returns as the event name
  (declared \<open>string | undefined\<close>): an object is the map of its string-valued fields.
\<close>

datatype body = BodyFalsy | BodyScalar string | BodyObject "string \<Rightarrow> string option"

fun body_truthy :: "body \<Rightarrow> bool" where
  "body_truthy BodyFalsy = False"
| "body_truthy (BodyScalar _) = True"
| "body_truthy (BodyObject _) = True"

section \<open>Signature validators (src/webhooks/validator.ts)\<close>

text \<open>
  \<open>crypto.createHmac(algorithm, secret).update(payload).digest("hex")\<close> belongs to the
  runtime, not to the repository: every definition that signs takes it as the parameter
  \<open>hmac\<close>, applied to the algorithm name, the secret and the payload.
\<close>

type_synonym hmac_hex = "string \<Rightarrow> string \<Rightarrow> string \<Rightarrow> string"

text \<open>
  \<open>crypto.timingSafeEqual(a, b)\<close>: throws a RangeError when the two buffers differ in byte
  length, and otherwise says whether they hold the same bytes.
\<close>

definition timingSafeEqual :: "string \<Rightarrow> string \<Rightarrow> js_error + bool" where
  "timingSafeEqual a b =
     (if length a \<noteq> length b
      then Inl (RangeError ''Input buffers must have the same byte length'')
      else Inr (a = b))"

definition HmacSha256Validator_generate :: "hmac_hex \<Rightarrow> string \<Rightarrow> string \<Rightarrow> string" where
  "HmacSha256Validator_generate hmac payload secret = ''sha256='' @ hmac ''sha256'' secret payload"

definition HmacSha256Validator_validate ::
  "hmac_hex \<Rightarrow> string \<Rightarrow> string \<Rightarrow> string \<Rightarrow> js_error + bool" where
  "HmacSha256Validator_validate hmac payload signature secret =
     (let expectedSignature = HmacSha256Validator_generate hmac payload secret
      in timingSafeEqual signature expectedSignature)"

definition HmacSha1Validator_generate :: "hmac_hex \<Rightarrow> string \<Rightarrow> string \<Rightarrow> string" where
  "HmacSha1Validator_generate hmac payload secret = ''sha1='' @ hmac ''sha1'' secret payload"

definition HmacSha1Validator_validate ::
  "hmac_hex \<Rightarrow> string \<Rightarrow> string \<Rightarrow> string \<Rightarrow> js_error + bool" where
  "HmacSha1Validator_validate hmac payload signature secret =
     (let expectedSignature = HmacSha1Validator_generate hmac payload secret
      in timingSafeEqual signature expectedSignature)"

datatype SignatureMethod = HmacSha256 | HmacSha1

text \<open>The algorithm name each validator passes to \<open>createHmac\<close> and prints as prefix.\<close>

definition method_name :: "SignatureMethod \<Rightarrow> string" where
  "method_name m = (case m of HmacSha256 \<Rightarrow> ''sha256'' | HmacSha1 \<Rightarrow> ''sha1'')"

text \<open>The map \<open>signatureValidators\<close>: both methods of the type have a validator.\<close>

fun validator_generate :: "SignatureMethod \<Rightarrow> hmac_hex \<Rightarrow> string \<Rightarrow> string \<Rightarrow> string" where
  "validator_generate HmacSha256 = HmacSha256Validator_generate"
| "validator_generate HmacSha1 = HmacSha1Validator_generate"

fun validator_validate ::
  "SignatureMethod \<Rightarrow> hmac_hex \<Rightarrow> string \<Rightarrow> string \<Rightarrow> string \<Rightarrow> js_error + bool" where
  "validator_validate HmacSha256 = HmacSha256Validator_validate"
| "validator_validate HmacSha1 = HmacSha1Validator_validate"

section \<open>Data model (src/webhooks/types.ts, src/types)\<close>

record WebhookPayload =
  headers :: "(string \<Rightarrow> string option) option"
  body :: body
  rawBody :: string
  timestamp :: real
  signature :: "string option"

record WebhookValidationResult =
  isValid :: bool
  vr_error :: "string option"
  vr_event :: "string option"

datatype BackoffStrategy = Linear | Exponential

record RetryPolicy =
  maxRetries :: int
  backoffStrategy :: BackoffStrategy
  baseDelay :: real
  maxDelay :: real

record WebhookConfig =
  endpoint :: string
  secret :: "string option"
  events :: "string list"
  signatureHeader :: "string option"
  signatureMethod :: "SignatureMethod option"
  retryPolicy :: "RetryPolicy option"

section \<open>WebhookValidator (src/webhooks/validator.ts)\<close>

definition no_headers :: js_error where
  "no_headers = TypeError ''Cannot read properties of undefined''"

definition validateSignature ::
  "hmac_hex \<Rightarrow> WebhookPayload \<Rightarrow> string \<Rightarrow> SignatureMethod \<Rightarrow> string \<Rightarrow> js_error + bool" where
  "validateSignature hmac payload secret' method signatureHeader' =
     (case headers payload of
        None \<Rightarrow> Inl no_headers
      | Some h \<Rightarrow>
          (let receivedSignature = h (toLowerCase signatureHeader')
           in case receivedSignature of
                None \<Rightarrow> Inr False
              | Some received \<Rightarrow>
                  if received = [] then Inr False
                  else validator_validate method hmac (rawBody payload) received secret'))"

definition eventHeaders :: "string list" where
  "eventHeaders =
     [''x-github-event'', ''x-gitlab-event'', ''x-event-key'', ''x-event-type'', ''event-type'']"

fun scan_headers :: "(string \<Rightarrow> string option) \<Rightarrow> string list \<Rightarrow> string option" where
  "scan_headers h [] = None"
| "scan_headers h (header # rest) =
     (let event = h (toLowerCase header)
      in if truthy event then event else scan_headers h rest)"

definition extractEventType :: "WebhookPayload \<Rightarrow> WebhookConfig \<Rightarrow> js_error + string option" where
  "extractEventType payload config =
     (case headers payload of
        None \<Rightarrow> Inl no_headers
      | Some h \<Rightarrow>
          (case scan_headers h eventHeaders of
             Some event \<Rightarrow> Inr (Some event)
           | None \<Rightarrow>
               (case body payload of
                  BodyObject f \<Rightarrow>
                    Inr (js_or (js_or (js_or (f ''event_type'') (f ''type'')) (f ''action''))
                           (f ''event''))
                | _ \<Rightarrow> Inr None)))"

definition validation_error :: "js_error \<Rightarrow> WebhookValidationResult" where
  "validation_error e =
     \<lparr>isValid = False, vr_error = Some (''Validation error: '' @ error_message e),
      vr_event = None\<rparr>"

text \<open>
  The body of \<open>validate\<close>, in the order of the source: the presence check, the
  signature step (\<open>check_signature\<close>: the \<open>if (config.secret && payload.signature)\<close>
  block, \<open>Inr True\<close> when it is skipped), then classification and the allow-list
  (\<open>check_event\<close>). Whatever is thrown on the way is caught by the \<open>try\<close> around
  them and becomes a \<open>Validation error\<close> verdict.
\<close>

definition check_signature :: "hmac_hex \<Rightarrow> WebhookPayload \<Rightarrow> WebhookConfig \<Rightarrow> js_error + bool" where
  "check_signature hmac payload config =
     (if truthy (secret config) \<and> truthy (signature payload)
      then validateSignature hmac payload (or_default (secret config) [])
             (case signatureMethod config of None \<Rightarrow> HmacSha256 | Some m \<Rightarrow> m)
             (or_default (signatureHeader config) ''x-hub-signature-256'')
      else Inr True)"

definition check_event :: "WebhookPayload \<Rightarrow> WebhookConfig \<Rightarrow> WebhookValidationResult" where
  "check_event payload config =
     (case extractEventType payload config of
        Inl e \<Rightarrow> validation_error e
      | Inr event \<Rightarrow>
          if events config \<noteq> [] \<and> truthy event \<and> or_default event [] \<notin> set (events config)
          then \<lparr>isValid = False,
                vr_error = Some (''Unsupported event type: '' @ or_default event []),
                vr_event = None\<rparr>
          else \<lparr>isValid = True, vr_error = None, vr_event = event\<rparr>)"

definition validate :: "hmac_hex \<Rightarrow> WebhookPayload \<Rightarrow> WebhookConfig \<Rightarrow> WebhookValidationResult" where
  "validate hmac payload config =
     (if \<not> body_truthy (body payload) \<or> headers payload = None
      then \<lparr>isValid = False, vr_error = Some ''Missing required payload data'',
            vr_event = None\<rparr>
      else case check_signature hmac payload config of
             Inl e \<Rightarrow> validation_error e
           | Inr isSignatureValid \<Rightarrow>
               if \<not> isSignatureValid
               then \<lparr>isValid = False, vr_error = Some ''Invalid signature'', vr_event = None\<rparr>
               else check_event payload config)"

section \<open>WebhookProcessor (the source file that imports ./validator and ./types)\<close>

datatype thrown = ErrorObject string | OtherValue

record IntegrationError =
  code :: string
  message :: string
  details :: "thrown option"
  retryable :: "bool option"

record WebhookProcessingResult =
  success :: bool
  res_event :: "string option"
  data :: "string option"
  res_error :: "IntegrationError option"
  shouldRetry :: "bool option"

text \<open>The context is passed through to the handlers; its \<open>tokens\<close> field is left out.\<close>

record IntegrationContext =
  userId :: "string option"
  organizationId :: "string option"
  installationId :: "string option"
  metadata :: "(string \<times> string) list"

record WebhookRetryAttempt =
  attempt :: int
  att_timestamp :: real
  att_error :: string
  nextRetry :: "real option"

datatype DeliveryStatus = Pending | Delivered | Failed | Retrying

record WebhookDelivery =
  dlv_id :: string
  url :: string
  dlv_event :: string
  dlv_payload :: body
  dlv_headers :: "(string \<Rightarrow> string option) option"
  dlv_timestamp :: real
  status :: DeliveryStatus
  attempts :: "WebhookRetryAttempt list"

text \<open>
  What one call reads from outside the program: the clock (\<open>Date.now()\<close>, \<open>new Date()\<close>,
  one reading for the call), the string \<open>generateDeliveryId()\<close> builds from the clock and
  \<open>Math.random()\<close>, the draw of \<open>Math.random()\<close> for the jitter, and the message the
  engine gives the TypeError it throws when a member of \<open>Object.prototype\<close> of the given
  name is called as a handler (see \<open>find_handler\<close>). The sleep before a retry only lets
  time pass and has no counterpart here.
\<close>

record world =
  now :: real
  delivery_id :: string
  random :: real
  type_error_text :: "string \<Rightarrow> string"

text \<open>
  A handler is a function of the source's caller. It resolves to a result or rejects
  (throws); it may depend on the outside world, and does not touch the processor.
\<close>

datatype outcome = Resolved WebhookProcessingResult | Rejected thrown

type_synonym WebhookHandler = "world \<Rightarrow> WebhookPayload \<Rightarrow> IntegrationContext \<Rightarrow> outcome"

text \<open>
  The processor. \<open>deliveries\<close> is the \<open>Map<string, WebhookDelivery>\<close>: its keys in
  insertion order, each with the address of a delivery object; \<open>heap\<close> holds the objects.
  \<open>retry\<close> mutates a delivery object through a reference it took before calling
  \<open>process\<close>, so objects and map entries are kept apart.
\<close>

record WebhookProcessor =
  eventHandlers :: "string \<Rightarrow> WebhookHandler option"
  heap :: "WebhookDelivery list"
  deliveries :: "(string \<times> nat) list"

definition WebhookProcessor_new :: WebhookProcessor where
  "WebhookProcessor_new = \<lparr>eventHandlers = (\<lambda>_. None), heap = [], deliveries = []\<rparr>"

text \<open>
  \<open>this.eventHandlers[event] = handler\<close>, for every key but \<open>__proto__\<close>: an assignment to
  that key replaces the prototype of the object instead of storing a property, which
  this model of the handlers does not represent.
\<close>

definition on :: "string \<Rightarrow> WebhookHandler \<Rightarrow> WebhookProcessor \<Rightarrow> WebhookProcessor" where
  "on ev handler s = s\<lparr>eventHandlers := (eventHandlers s)(ev \<mapsto> handler)\<rparr>"

text \<open>\<open>Map.prototype.set\<close>: an existing key keeps its place, a new key goes last.\<close>

fun map_set :: "string \<Rightarrow> nat \<Rightarrow> (string \<times> nat) list \<Rightarrow> (string \<times> nat) list" where
  "map_set k v [] = [(k, v)]"
| "map_set k v (p # ps) = (if fst p = k then (k, v) # ps else p # map_set k v ps)"

definition recordDelivery :: "WebhookDelivery \<Rightarrow> WebhookProcessor \<Rightarrow> WebhookProcessor" where
  "recordDelivery delivery s =
     s\<lparr>heap := heap s @ [delivery],
       deliveries := map_set (dlv_id delivery) (length (heap s)) (deliveries s)\<rparr>"

text \<open>
  \<open>this.deliveries.get(deliveryId)\<close>, as the address of the object. \<open>recordDelivery\<close>
  is the only writer of the map and enters addresses of allocated objects only; the
  comparison with the heap's length makes the lookup total on every processor value.
\<close>

definition deliveries_get :: "WebhookProcessor \<Rightarrow> string \<Rightarrow> nat option" where
  "deliveries_get s deliveryId =
     (case map_of (deliveries s) deliveryId of
        None \<Rightarrow> None
      | Some a \<Rightarrow> if a < length (heap s) then Some a else None)"

definition getDelivery :: "WebhookProcessor \<Rightarrow> string \<Rightarrow> WebhookDelivery option" where
  "getDelivery s deliveryId = map_option (\<lambda>a. heap s ! a) (deliveries_get s deliveryId)"

definition getAllDeliveries :: "WebhookProcessor \<Rightarrow> WebhookDelivery list" where
  "getAllDeliveries s = map (\<lambda>(k, a). heap s ! a) (deliveries s)"

definition failure :: "string \<Rightarrow> string \<Rightarrow> WebhookProcessingResult" where
  "failure c m =
     \<lparr>success = False, res_event = None, data = None,
      res_error = Some \<lparr>code = c, message = m, details = None, retryable = Some False\<rparr>,
      shouldRetry = None\<rparr>"

text \<open>\<open>result.error?.message || ""\<close>\<close>

definition error_text :: "WebhookProcessingResult \<Rightarrow> string" where
  "error_text result = (case res_error result of None \<Rightarrow> [] | Some e \<Rightarrow> message e)"

text \<open>\<open>error instanceof Error ? error.message : fallback\<close>\<close>

fun thrown_message :: "thrown \<Rightarrow> string \<Rightarrow> string" where
  "thrown_message (ErrorObject m) fallback = m"
| "thrown_message OtherValue fallback = fallback"

definition first_attempt :: "world \<Rightarrow> string \<Rightarrow> WebhookRetryAttempt" where
  "first_attempt w e = \<lparr>attempt = 1, att_timestamp = now w, att_error = e, nextRetry = None\<rparr>"

definition new_delivery ::
  "world \<Rightarrow> WebhookConfig \<Rightarrow> string \<Rightarrow> WebhookPayload \<Rightarrow> DeliveryStatus \<Rightarrow> string \<Rightarrow> WebhookDelivery" where
  "new_delivery w config ev payload st e =
     \<lparr>dlv_id = delivery_id w, url = endpoint config, dlv_event = ev,
      dlv_payload = body payload, dlv_headers = headers payload,
      dlv_timestamp = timestamp payload, status = st, attempts = [first_attempt w e]\<rparr>"

text \<open>
  \<open>eventHandlers\<close> is a plain object, so reading a key that is not a property of its own
  finds the member of \<open>Object.prototype\<close> of that name, if there is one. Called as
  \<open>handler(payload, context)\<close>, with no receiver, \<open>constructor\<close>
  returns its argument and \<open>toString\<close> returns a string: values on which every field the
  processor reads is undefined. The other methods throw a TypeError when they turn the
  missing receiver into an object, and \<open>__proto__\<close> is an object, so calling it throws
  a TypeError as well.
\<close>

definition no_fields :: WebhookProcessingResult where
  "no_fields =
     \<lparr>success = False, res_event = None, data = None, res_error = None, shouldRetry = None\<rparr>"

definition returning_members :: "string list" where
  "returning_members = [''constructor'', ''toString'']"

definition throwing_members :: "string list" where
  "throwing_members =
     [''__proto__'', ''hasOwnProperty'', ''isPrototypeOf'', ''propertyIsEnumerable'',
      ''toLocaleString'', ''valueOf'', ''__defineGetter__'', ''__defineSetter__'',
      ''__lookupGetter__'', ''__lookupSetter__'']"

definition Object_prototype :: "string \<Rightarrow> WebhookHandler option" where
  "Object_prototype k =
     (if k \<in> set returning_members then Some (\<lambda>w p c. Resolved no_fields)
      else if k \<in> set throwing_members
      then Some (\<lambda>w p c. Rejected (ErrorObject (type_error_text w k)))
      else None)"

text \<open>\<open>this.eventHandlers[key]\<close>\<close>

definition read_handler :: "WebhookProcessor \<Rightarrow> string \<Rightarrow> WebhookHandler option" where
  "read_handler s k =
     (case eventHandlers s k of Some h \<Rightarrow> Some h | None \<Rightarrow> Object_prototype k)"

text \<open>\<open>this.eventHandlers[event] || this.eventHandlers["*"]\<close>\<close>

definition find_handler :: "WebhookProcessor \<Rightarrow> string \<Rightarrow> WebhookHandler option" where
  "find_handler s ev =
     (case read_handler s ev of Some h \<Rightarrow> Some h | None \<Rightarrow> read_handler s ''*'')"

definition run_handler ::
  "WebhookHandler \<Rightarrow> world \<Rightarrow> string \<Rightarrow> WebhookPayload \<Rightarrow> WebhookConfig \<Rightarrow> IntegrationContext \<Rightarrow>
   WebhookProcessor \<Rightarrow> WebhookProcessingResult \<times> WebhookProcessor" where
  "run_handler handler w ev payload config context s =
     (case handler w payload context of
        Resolved result \<Rightarrow>
          (result,
           recordDelivery
             (new_delivery w config ev payload (if success result then Delivered else Failed)
                (error_text result)) s)
      | Rejected err \<Rightarrow>
          (let processingError =
                 \<lparr>code = ''PROCESSING_ERROR'',
                  message = thrown_message err ''Unknown processing error'',
                  details = Some err, retryable = Some True\<rparr>
           in (\<lparr>success = False, res_event = None, data = None,
                res_error = Some processingError, shouldRetry = Some True\<rparr>,
               recordDelivery
                 (new_delivery w config ev payload Failed (message processingError)) s)))"

definition process ::
  "hmac_hex \<Rightarrow> world \<Rightarrow> WebhookPayload \<Rightarrow> WebhookConfig \<Rightarrow> IntegrationContext \<Rightarrow>
   WebhookProcessor \<Rightarrow> WebhookProcessingResult \<times> WebhookProcessor" where
  "process hmac w payload config context s =
     (let validationResult = validate hmac payload config
      in if \<not> isValid validationResult
         then (failure ''VALIDATION_FAILED''
                 (or_default (vr_error validationResult) ''Webhook validation failed''), s)
         else if \<not> truthy (vr_event validationResult)
         then (failure ''NO_EVENT_TYPE''
                 ''Could not determine event type from webhook payload'', s)
         else
           (let ev = or_default (vr_event validationResult) []
            in case find_handler s ev of
                 None \<Rightarrow> (failure ''NO_HANDLER'' (''No handler registered for event: '' @ ev), s)
               | Some handler \<Rightarrow> run_handler handler w ev payload config context s))"

text \<open>
  \<open>process\<close> catches what the validator and the handler throw, so the promise it returns
  never rejects: the \<open>try\<close> of \<open>retry\<close> always takes its first branch.
\<close>

definition await_process ::
  "hmac_hex \<Rightarrow> world \<Rightarrow> WebhookPayload \<Rightarrow> WebhookConfig \<Rightarrow> IntegrationContext \<Rightarrow>
   WebhookProcessor \<Rightarrow> (thrown \<times> WebhookProcessor) + (WebhookProcessingResult \<times> WebhookProcessor)" where
  "await_process hmac w payload config context s = Inr (process hmac w payload config context s)"

definition getDefaultRetryPolicy :: RetryPolicy where
  "getDefaultRetryPolicy =
     \<lparr>maxRetries = 3, backoffStrategy = Exponential, baseDelay = 1000, maxDelay = 60000\<rparr>"

text \<open>The first argument is the draw of \<open>Math.random()\<close>.\<close>

definition calculateRetryDelay :: "real \<Rightarrow> nat \<Rightarrow> RetryPolicy \<Rightarrow> real" where
  "calculateRetryDelay rnd n policy =
     (if backoffStrategy policy = Linear
      then min (baseDelay policy * (real n + 1)) (maxDelay policy)
      else
        (let exponentialDelay = baseDelay policy * 2 ^ n;
             jitter = rnd * 0.1 * exponentialDelay
         in min (exponentialDelay + jitter) (maxDelay policy)))"

text \<open>Decimal text of an integer, as a template literal prints it.\<close>

definition digit_char :: "nat \<Rightarrow> char" where
  "digit_char d = ''0123456789'' ! d"

fun show_nat :: "nat \<Rightarrow> string" where
  "show_nat n = (if n < 10 then [digit_char n] else show_nat (n div 10) @ [digit_char (n mod 10)])"

declare show_nat.simps [simp del]

definition show_int :: "int \<Rightarrow> string" where
  "show_int i = (if i < 0 then CHR ''-'' # show_nat (nat (- i)) else show_nat (nat i))"

text \<open>Mutations of the delivery object at address \<open>a\<close>.\<close>

definition set_status :: "nat \<Rightarrow> DeliveryStatus \<Rightarrow> WebhookProcessor \<Rightarrow> WebhookProcessor" where
  "set_status a st s = s\<lparr>heap := (heap s)[a := (heap s ! a)\<lparr>status := st\<rparr>]\<rparr>"

definition push_attempt :: "nat \<Rightarrow> WebhookRetryAttempt \<Rightarrow> WebhookProcessor \<Rightarrow> WebhookProcessor" where
  "push_attempt a x s =
     s\<lparr>heap := (heap s)[a := (heap s ! a)\<lparr>attempts := attempts (heap s ! a) @ [x]\<rparr>]\<rparr>"

definition retry_policy_of :: "WebhookConfig \<Rightarrow> RetryPolicy" where
  "retry_policy_of config =
     (case retryPolicy config of None \<Rightarrow> getDefaultRetryPolicy | Some p \<Rightarrow> p)"

definition retry_attempt ::
  "hmac_hex \<Rightarrow> world \<Rightarrow> nat \<Rightarrow> nat \<Rightarrow> RetryPolicy \<Rightarrow> WebhookPayload \<Rightarrow> WebhookConfig \<Rightarrow>
   IntegrationContext \<Rightarrow> WebhookProcessor \<Rightarrow> WebhookProcessingResult \<times> WebhookProcessor" where
  "retry_attempt hmac w a attemptCount policy payload config context s =
     (let delay = calculateRetryDelay (random w) attemptCount policy
      in case await_process hmac w payload config context (set_status a Retrying s) of
           Inr (result, s1) \<Rightarrow>
             (let s2 = push_attempt a
                         \<lparr>attempt = int attemptCount + 1, att_timestamp = now w,
                          att_error = error_text result,
                          nextRetry = (if shouldRetry result = Some True
                                       then Some (now w + delay) else None)\<rparr> s1
              in (result,
                  if success result then set_status a Delivered s2
                  else if shouldRetry result \<noteq> Some True then set_status a Failed s2
                  else s2))
         | Inl (err, s1) \<Rightarrow>
             (let retryError =
                    \<lparr>code = ''RETRY_FAILED'', message = thrown_message err ''Retry failed'',
                     details = None,
                     retryable = Some (int attemptCount < maxRetries policy - 1)\<rparr>
              in (\<lparr>success = False, res_event = None, data = None,
                   res_error = Some retryError,
                   shouldRetry = Some (int attemptCount < maxRetries policy - 1)\<rparr>,
                  push_attempt a
                    \<lparr>attempt = int attemptCount + 1, att_timestamp = now w,
                     att_error = message retryError,
                     nextRetry = (if int attemptCount < maxRetries policy - 1
                                  then Some (now w + delay) else None)\<rparr> s1)))"

definition retry ::
  "hmac_hex \<Rightarrow> world \<Rightarrow> string \<Rightarrow> WebhookPayload \<Rightarrow> WebhookConfig \<Rightarrow> IntegrationContext \<Rightarrow>
   WebhookProcessor \<Rightarrow> WebhookProcessingResult \<times> WebhookProcessor" where
  "retry hmac w deliveryId payload config context s =
     (case deliveries_get s deliveryId of
        None \<Rightarrow> (failure ''DELIVERY_NOT_FOUND'' (''Delivery '' @ deliveryId @ '' not found''), s)
      | Some a \<Rightarrow>
          (let policy = retry_policy_of config;
               attemptCount = length (attempts (heap s ! a))
           in if int attemptCount \<ge> maxRetries policy
              then (failure ''MAX_RETRIES_EXCEEDED''
                      (''Maximum retry attempts ('' @ show_int (maxRetries policy) @ '') exceeded''),
                    set_status a Failed s)
              else retry_attempt hmac w a attemptCount policy payload config context s))"

text \<open>
  Two notions the properties of \<open>retry\<close> are stated with. A call of \<open>process\<close>
  reaches a handler when the verdict is valid, an event was classified, and the lookup
  finds a handler for it or for \<open>*\<close>. The core does not schedule retries: the caller
  calls \<open>retry\<close> again, here once for each world of a list.
\<close>

definition reaches_handler ::
  "hmac_hex \<Rightarrow> WebhookPayload \<Rightarrow> WebhookConfig \<Rightarrow> WebhookProcessor \<Rightarrow> bool" where
  "reaches_handler hmac payload config s =
     (let validationResult = validate hmac payload config
      in isValid validationResult \<and> truthy (vr_event validationResult) \<and>
         find_handler s (or_default (vr_event validationResult) []) \<noteq> None)"

fun retries ::
  "hmac_hex \<Rightarrow> world list \<Rightarrow> string \<Rightarrow> WebhookPayload \<Rightarrow> WebhookConfig \<Rightarrow> IntegrationContext \<Rightarrow>
   WebhookProcessor \<Rightarrow> WebhookProcessor" where
  "retries hmac [] deliveryId payload config context s = s"
| "retries hmac (w # ws) deliveryId payload config context s =
     retries hmac ws deliveryId payload config context
       (snd (retry hmac w deliveryId payload config context s))"

section \<open>OAuth providers (src/oauth/provider.ts, src/oauth/providers)\<close>

record OAuthConfig =
  clientId :: string
  clientSecret :: "string option"
  redirectUri :: string
  scopes :: "string list"
  authUrl :: "string option"
  tokenUrl :: "string option"
  userInfoUrl :: "string option"
  usePKCE :: "bool option"

record OAuthState =
  os_state :: string
  codeVerifier :: "string option"
  os_redirectUri :: string
  os_scopes :: "string list"
  os_userId :: "string option"
  os_metadata :: "(string \<times> string) list"

record OAuthAuthorizationResult =
  authorizationUrl :: string
  ar_state :: string
  ar_codeVerifier :: "string option"

text \<open>
  The five provider classes the facade constructs. An instance holds the two fields of
  the base class.
\<close>

datatype provider_class = GitHubOAuth | VercelOAuth | NetlifyOAuth | SlackOAuth | CustomOAuth

record OAuthProvider =
  provider_class :: provider_class
  provider_name :: string
  provider_config :: OAuthConfig

text \<open>
  What the runtime provides to the providers: the base64url text of a buffer, the
  base64url text of the SHA-256 digest of a string, and \<open>new URL(base)\<close> with query
  parameters appended and printed (\<open>None\<close> when \<open>new URL\<close> throws on the base).
\<close>

record runtime =
  base64url :: "8 word list \<Rightarrow> string"
  sha256_base64url :: "string \<Rightarrow> string"
  url_with_params :: "string \<Rightarrow> (string \<times> string) list \<Rightarrow> string option"

text \<open>
  What one authorization reads from outside the program: \<open>crypto.randomBytes(16)\<close> for
  the state token, \<open>crypto.randomBytes(32)\<close> for the PKCE verifier, and the string the
  facade's own \<open>generateState\<close> builds from \<open>Math.random()\<close> and \<open>Date.now()\<close>.
\<close>

record oauth_world =
  state_bytes :: "8 word list"
  pkce_bytes :: "8 word list"
  facade_state :: string

text \<open>\<open>Buffer.prototype.toString("hex")\<close>: two lowercase digits for each byte.\<close>

definition hex_digit :: "nat \<Rightarrow> char" where
  "hex_digit d = ''0123456789abcdef'' ! d"

definition hex_byte :: "8 word \<Rightarrow> string" where
  "hex_byte b = [hex_digit (unat b div 16), hex_digit (unat b mod 16)]"

definition to_hex :: "8 word list \<Rightarrow> string" where
  "to_hex bs = concat (map hex_byte bs)"

definition generateState :: "oauth_world \<Rightarrow> string" where
  "generateState w = to_hex (state_bytes w)"

record PKCEChallenge =
  pk_codeVerifier :: string
  codeChallenge :: string
  codeChallengeMethod :: string

definition generatePKCEChallenge :: "runtime \<Rightarrow> oauth_world \<Rightarrow> PKCEChallenge" where
  "generatePKCEChallenge rt w =
     (let verifier = base64url rt (pkce_bytes w)
      in \<lparr>pk_codeVerifier = verifier, codeChallenge = sha256_base64url rt verifier,
          codeChallengeMethod = ''S256''\<rparr>)"

definition buildAuthUrl ::
  "runtime \<Rightarrow> string option \<Rightarrow> (string \<times> string) list \<Rightarrow> js_error + string" where
  "buildAuthUrl rt baseUrl params =
     (case baseUrl of
        None \<Rightarrow> Inl (TypeError ''Invalid URL'')
      | Some b \<Rightarrow>
          (case url_with_params rt b params of
             None \<Rightarrow> Inl (TypeError ''Invalid URL'')
           | Some u \<Rightarrow> Inr u))"

fun join :: "string \<Rightarrow> string list \<Rightarrow> string" where
  "join sep [] = []"
| "join sep [x] = x"
| "join sep (x # y # ys) = x @ sep @ join sep (y # ys)"

definition GITHUB_AUTH_URL :: string where
  "GITHUB_AUTH_URL = ''https://github.com/login/oauth/authorize''"

definition GITHUB_TOKEN_URL :: string where
  "GITHUB_TOKEN_URL = ''https://github.com/login/oauth/access_token''"

definition GITHUB_USER_URL :: string where
  "GITHUB_USER_URL = ''https://api.github.com/user''"

definition GitHubOAuth_new :: "OAuthConfig \<Rightarrow> OAuthProvider" where
  "GitHubOAuth_new cfg =
     \<lparr>provider_class = GitHubOAuth, provider_name = ''github'',
      provider_config =
        cfg\<lparr>authUrl := Some (or_default (authUrl cfg) GITHUB_AUTH_URL),
            tokenUrl := Some (or_default (tokenUrl cfg) GITHUB_TOKEN_URL),
            userInfoUrl := Some (or_default (userInfoUrl cfg) GITHUB_USER_URL)\<rparr>\<rparr>"

definition VERCEL_AUTH_URL :: string where
  "VERCEL_AUTH_URL = ''https://vercel.com/oauth/authorize''"

definition VERCEL_TOKEN_URL :: string where
  "VERCEL_TOKEN_URL = ''https://api.vercel.com/v2/oauth/access_token''"

definition VERCEL_USER_URL :: string where
  "VERCEL_USER_URL = ''https://api.vercel.com/v2/user''"

definition VercelOAuth_new :: "OAuthConfig \<Rightarrow> OAuthProvider" where
  "VercelOAuth_new cfg =
     \<lparr>provider_class = VercelOAuth, provider_name = ''vercel'',
      provider_config =
        cfg\<lparr>authUrl := Some (or_default (authUrl cfg) VERCEL_AUTH_URL),
            tokenUrl := Some (or_default (tokenUrl cfg) VERCEL_TOKEN_URL),
            userInfoUrl := Some (or_default (userInfoUrl cfg) VERCEL_USER_URL)\<rparr>\<rparr>"

definition NETLIFY_AUTH_URL :: string where
  "NETLIFY_AUTH_URL = ''https://app.netlify.com/authorize''"

definition NETLIFY_TOKEN_URL :: string where
  "NETLIFY_TOKEN_URL = ''https://api.netlify.com/oauth/token''"

definition NETLIFY_USER_URL :: string where
  "NETLIFY_USER_URL = ''https://api.netlify.com/api/v1/user''"

definition NetlifyOAuth_new :: "OAuthConfig \<Rightarrow> OAuthProvider" where
  "NetlifyOAuth_new cfg =
     \<lparr>provider_class = NetlifyOAuth, provider_name = ''netlify'',
      provider_config =
        cfg\<lparr>authUrl := Some (or_default (authUrl cfg) NETLIFY_AUTH_URL),
            tokenUrl := Some (or_default (tokenUrl cfg) NETLIFY_TOKEN_URL),
            userInfoUrl := Some (or_default (userInfoUrl cfg) NETLIFY_USER_URL)\<rparr>\<rparr>"

definition SLACK_AUTH_URL :: string where
  "SLACK_AUTH_URL = ''https://slack.com/oauth/v2/authorize''"

definition SLACK_TOKEN_URL :: string where
  "SLACK_TOKEN_URL = ''https://slack.com/api/oauth.v2.access''"

definition SLACK_USER_URL :: string where
  "SLACK_USER_URL = ''https://slack.com/api/users.identity''"

definition SlackOAuth_new :: "OAuthConfig \<Rightarrow> OAuthProvider" where
  "SlackOAuth_new cfg =
     \<lparr>provider_class = SlackOAuth, provider_name = ''slack'',
      provider_config =
        cfg\<lparr>authUrl := Some (or_default (authUrl cfg) SLACK_AUTH_URL),
            tokenUrl := Some (or_default (tokenUrl cfg) SLACK_TOKEN_URL),
            userInfoUrl := Some (or_default (userInfoUrl cfg) SLACK_USER_URL)\<rparr>\<rparr>"

definition CustomOAuth_new :: "string \<Rightarrow> OAuthConfig \<Rightarrow> js_error + OAuthProvider" where
  "CustomOAuth_new nm cfg =
     (if \<not> truthy (authUrl cfg) \<or> \<not> truthy (tokenUrl cfg)
      then Inl (Error ''Custom OAuth provider requires authUrl and tokenUrl'')
      else Inr \<lparr>provider_class = CustomOAuth, provider_name = nm, provider_config = cfg\<rparr>)"

text \<open>
  The five parameters every provider sends; \<open>sep\<close> is the separator its
  \<open>state.scopes.join\<close> uses.
\<close>

definition base_params ::
  "string \<Rightarrow> OAuthProvider \<Rightarrow> string \<Rightarrow> OAuthState \<Rightarrow> (string \<times> string) list" where
  "base_params sep p authState st =
     [(''client_id'', clientId (provider_config p)),
      (''redirect_uri'', os_redirectUri st),
      (''scope'', join sep (os_scopes st)),
      (''state'', authState),
      (''response_type'', ''code'')]"

text \<open>\<open>getAuthorizationUrl\<close> of GitHubOAuth and of CustomOAuth (the same text in both).\<close>

definition pkce_getAuthorizationUrl ::
  "runtime \<Rightarrow> oauth_world \<Rightarrow> OAuthProvider \<Rightarrow> OAuthState \<Rightarrow> js_error + OAuthAuthorizationResult" where
  "pkce_getAuthorizationUrl rt w p st =
     (let authState = generateState w;
          params = base_params '' '' p authState st;
          pkce = generatePKCEChallenge rt w;
          params' = (if usePKCE (provider_config p) = Some True
                     then params @ [(''code_challenge'', codeChallenge pkce),
                                    (''code_challenge_method'', codeChallengeMethod pkce)]
                     else params);
          verifier = (if usePKCE (provider_config p) = Some True
                      then Some (pk_codeVerifier pkce) else None)
      in case buildAuthUrl rt (authUrl (provider_config p)) params' of
           Inl e \<Rightarrow> Inl e
         | Inr u \<Rightarrow> Inr \<lparr>authorizationUrl = u, ar_state = authState, ar_codeVerifier = verifier\<rparr>)"

text \<open>
  \<open>getAuthorizationUrl\<close> of VercelOAuth and of NetlifyOAuth, which join the scopes with
  a space, and of SlackOAuth, which joins them with a comma.
\<close>

definition plain_getAuthorizationUrl ::
  "string \<Rightarrow> runtime \<Rightarrow> oauth_world \<Rightarrow> OAuthProvider \<Rightarrow> OAuthState \<Rightarrow>
   js_error + OAuthAuthorizationResult" where
  "plain_getAuthorizationUrl sep rt w p st =
     (let authState = generateState w;
          params = base_params sep p authState st
      in case buildAuthUrl rt (authUrl (provider_config p)) params of
           Inl e \<Rightarrow> Inl e
         | Inr u \<Rightarrow> Inr \<lparr>authorizationUrl = u, ar_state = authState, ar_codeVerifier = None\<rparr>)"

definition getAuthorizationUrl ::
  "runtime \<Rightarrow> oauth_world \<Rightarrow> OAuthProvider \<Rightarrow> OAuthState \<Rightarrow> js_error + OAuthAuthorizationResult" where
  "getAuthorizationUrl rt w p st =
     (case provider_class p of
        GitHubOAuth \<Rightarrow> pkce_getAuthorizationUrl rt w p st
      | CustomOAuth \<Rightarrow> pkce_getAuthorizationUrl rt w p st
      | VercelOAuth \<Rightarrow> plain_getAuthorizationUrl '' '' rt w p st
      | NetlifyOAuth \<Rightarrow> plain_getAuthorizationUrl '' '' rt w p st
      | SlackOAuth \<Rightarrow> plain_getAuthorizationUrl '','' rt w p st)"

section \<open>Integration facade: initializeOAuth (the source file that imports @/webhooks and @/oauth)\<close>

text \<open>
  A subscriber of \<open>oauth.authorized\<close>. \<open>emitEvent\<close> wraps each call in
  \<open>Promise.resolve(...).catch\<close>: a promise that rejects is logged and dropped, but a
  subscriber that throws before returning a promise makes \<open>emitEvent\<close> itself throw.
\<close>

datatype subscriber_outcome = Settled | RejectedLater | ThrewNow thrown

type_synonym EventHandler = "OAuthAuthorizationResult \<Rightarrow> IntegrationContext \<Rightarrow> subscriber_outcome"

fun emitEvent :: "EventHandler list \<Rightarrow> OAuthAuthorizationResult \<Rightarrow> IntegrationContext \<Rightarrow> thrown option" where
  "emitEvent [] d context = None"
| "emitEvent (handler # rest) d context =
     (case handler d context of
        ThrewNow t \<Rightarrow> Some t
      | _ \<Rightarrow> emitEvent rest d context)"

text \<open>
  \<open>initializeOAuthProvider\<close>: the provider instance the facade's constructor builds from
  \<open>config.provider\<close>, \<open>config.name\<close> and \<open>config.oauth\<close>. No class exists for \<open>discord\<close>.
\<close>

datatype SupportedProvider = Github | Vercel | Netlify | Slack | Discord | Custom

definition initializeOAuthProvider ::
  "SupportedProvider \<Rightarrow> string \<Rightarrow> OAuthConfig option \<Rightarrow> js_error + OAuthProvider option" where
  "initializeOAuthProvider provider nm oauth =
     (case oauth of
        None \<Rightarrow> Inr None
      | Some cfg \<Rightarrow>
          (case provider of
             Github \<Rightarrow> Inr (Some (GitHubOAuth_new cfg))
           | Vercel \<Rightarrow> Inr (Some (VercelOAuth_new cfg))
           | Netlify \<Rightarrow> Inr (Some (NetlifyOAuth_new cfg))
           | Slack \<Rightarrow> Inr (Some (SlackOAuth_new cfg))
           | Custom \<Rightarrow>
               (case CustomOAuth_new nm cfg of Inl e \<Rightarrow> Inl e | Inr p \<Rightarrow> Inr (Some p))
           | Discord \<Rightarrow> Inl (Error ''Unsupported OAuth provider: discord'')))"

text \<open>
  Of the facade, what \<open>initializeOAuth\<close> reads: \<open>config.oauth\<close> (\<open>int_oauth\<close>), the
  provider instance, and the subscribers of \<open>oauth.authorized\<close>. Its result is the
  \<open>IntegrationResult\<close> whose data are \<open>authUrl\<close> and \<open>state\<close>.
\<close>

record Integration =
  int_oauth :: "OAuthConfig option"
  oauthProvider :: "OAuthProvider option"
  authorized_handlers :: "EventHandler list"

record AuthData =
  authUrl' :: string
  state' :: string

record InitResult =
  init_success :: bool
  init_data :: "AuthData option"
  init_error :: "IntegrationError option"

definition oauth_init_failed :: "string \<Rightarrow> thrown \<Rightarrow> InitResult" where
  "oauth_init_failed m t =
     \<lparr>init_success = False, init_data = None,
      init_error = Some \<lparr>code = ''OAUTH_INIT_FAILED'', message = m, details = Some t,
                         retryable = Some True\<rparr>\<rparr>"

definition initializeOAuth ::
  "runtime \<Rightarrow> oauth_world \<Rightarrow> Integration \<Rightarrow> IntegrationContext \<Rightarrow> InitResult" where
  "initializeOAuth rt w integration context =
     (case (int_oauth integration, oauthProvider integration) of
        (Some oauth, Some provider) \<Rightarrow>
          (case getAuthorizationUrl rt w provider
                  \<lparr>os_state = facade_state w, codeVerifier = None,
                   os_redirectUri = redirectUri oauth, os_scopes = scopes oauth,
                   os_userId = userId context, os_metadata = metadata context\<rparr> of
             Inl e \<Rightarrow> oauth_init_failed (error_message e) (ErrorObject (error_message e))
           | Inr result \<Rightarrow>
               (case emitEvent (authorized_handlers integration) result context of
                  Some t \<Rightarrow> oauth_init_failed (thrown_message t ''OAuth initialization failed'') t
                | None \<Rightarrow>
                    \<lparr>init_success = True,
                     init_data = Some \<lparr>authUrl' = authorizationUrl result,
                                       state' = ar_state result\<rparr>,
                     init_error = None\<rparr>))
      | _ \<Rightarrow>
          \<lparr>init_success = False, init_data = None,
           init_error = Some \<lparr>code = ''OAUTH_NOT_CONFIGURED'',
                              message = ''OAuth is not configured for this integration'',
                              details = None, retryable = Some False\<rparr>\<rparr>)"

section \<open>Concrete instances of the runtime\<close>

text \<open>
  The theorems below hold for every \<open>hmac\<close> and every \<open>runtime\<close>. To apply them to
  concrete calls a digest and a runtime are needed: \<open>test_hmac\<close> is a one-byte checksum
  of key and message printed in hex, and \<open>test_runtime\<close> prints its arguments unencoded.
\<close>

definition test_hmac :: hmac_hex where
  "test_hmac alg key msg = to_hex [of_nat (sum_list (map of_char (key @ msg)))]"

definition test_runtime :: runtime where
  "test_runtime =
     \<lparr>base64url = to_hex, sha256_base64url = (\<lambda>s. s),
      url_with_params = (\<lambda>b ps. Some (b @ ''?'' @ join ''&'' (map (\<lambda>(k, v). k @ ''='' @ v) ps)))\<rparr>"

text \<open>A configuration, payloads, a handler, a context and a world for concrete calls.\<close>

definition push_config :: WebhookConfig where
  "push_config =
     \<lparr>endpoint = ''http://localhost:3000/webhooks/github'', secret = Some ''s3cr3t'',
      events = [''push''], signatureHeader = None, signatureMethod = Some HmacSha256,
      retryPolicy = None\<rparr>"

definition unsigned_payload :: "(string \<times> string) list \<Rightarrow> body \<Rightarrow> WebhookPayload" where
  "unsigned_payload hs b =
     \<lparr>headers = Some (map_of hs), body = b, rawBody = ''abc'', timestamp = 0,
      signature = None\<rparr>"

definition signed_payload :: "string \<Rightarrow> WebhookPayload" where
  "signed_payload sig =
     \<lparr>headers = Some (map_of [(''x-github-event'', ''push''), (''x-hub-signature-256'', sig)]),
      body = BodyObject (map_of [(''ref'', ''refs/heads/main'')]), rawBody = ''abc'',
      timestamp = 0, signature = Some sig\<rparr>"

definition ok_handler :: WebhookHandler where
  "ok_handler w p c =
     Resolved \<lparr>success = True, res_event = Some ''push'', data = None, res_error = None,
               shouldRetry = None\<rparr>"

definition no_context :: IntegrationContext where
  "no_context = \<lparr>userId = None, organizationId = None, installationId = None, metadata = []\<rparr>"

definition engine_text :: "string \<Rightarrow> string" where
  "engine_text k = ''Cannot convert undefined or null to object''"

definition world0 :: world where
  "world0 = \<lparr>now = 0, delivery_id = ''delivery_0_a'', random = 0, 
      type_error_text = engine_text\<rparr>"

text \<open>The linear policy of the specification's example.\<close>

definition linear_policy :: RetryPolicy where
  "linear_policy = \<lparr>maxRetries = 5, backoffStrategy = Linear, baseDelay = 1000, maxDelay = 5000\<rparr>"

text \<open>
  A handler that throws, a payload classified as \<open>push\<close>, three more worlds with ids of
  their own, and the processor after one \<open>process\<close> and two \<open>retry\<close> calls on the
  delivery the first call recorded.
\<close>

definition failing_handler :: WebhookHandler where
  "failing_handler w p c = Rejected (ErrorObject ''handler failed'')"

definition push_payload :: WebhookPayload where
  "push_payload = unsigned_payload [(''x-github-event'', ''push'')] (BodyObject Map.empty)"

definition world1 :: world where
  "world1 = \<lparr>now = 1000, delivery_id = ''delivery_1_b'', random = 0, 
      type_error_text = engine_text\<rparr>"

definition world2 :: world where
  "world2 = \<lparr>now = 3000, delivery_id = ''delivery_2_c'', random = 0, 
      type_error_text = engine_text\<rparr>"

definition world3 :: world where
  "world3 = \<lparr>now = 7000, delivery_id = ''delivery_3_d'', random = 0, 
      type_error_text = engine_text\<rparr>"

definition failing_processor :: WebhookProcessor where
  "failing_processor = on ''push'' failing_handler WebhookProcessor_new"

definition one_retry_config :: WebhookConfig where
  "one_retry_config =
     push_config\<lparr>retryPolicy :=
       Some \<lparr>maxRetries = 1, backoffStrategy = Exponential, baseDelay = 1000,
             maxDelay = 60000\<rparr>\<rparr>"

definition first_attempted :: WebhookProcessor where
  "first_attempted =
     snd (process test_hmac world0 push_payload push_config no_context failing_processor)"

definition twice_retried :: WebhookProcessor where
  "twice_retried =
     retries test_hmac [world1, world2] ''delivery_0_a'' push_payload push_config no_context
       first_attempted"

text \<open>OAuth configurations, a GitHub integration, two draws of the random source that differ
  in their first byte, and a context.\<close>

definition custom_config :: OAuthConfig where
  "custom_config =
     \<lparr>clientId = ''your-custom-client-id'', clientSecret = Some ''your-custom-client-secret'',
      redirectUri = ''http://localhost:3000/auth/custom/callback'',
      scopes = [''read'', ''write''],
      authUrl = Some ''https://api.customservice.com/oauth/authorize'',
      tokenUrl = None, userInfoUrl = None, usePKCE = Some True\<rparr>"

definition github_config :: OAuthConfig where
  "github_config =
     \<lparr>clientId = ''test-client-id'', clientSecret = Some ''test-client-secret'',
      redirectUri = ''http://localhost:3000/callback'', scopes = [''repo''],
      authUrl = None, tokenUrl = None, userInfoUrl = None, usePKCE = None\<rparr>"

definition github_integration :: Integration where
  "github_integration =
     \<lparr>int_oauth = Some github_config, oauthProvider = Some (GitHubOAuth_new github_config),
      authorized_handlers = []\<rparr>"

definition slack_config :: OAuthConfig where
  "slack_config =
     \<lparr>clientId = ''test-client-id'', clientSecret = Some ''test-client-secret'',
      redirectUri = ''http://localhost:3000/callback'',
      scopes = [''channels:read'', ''chat:write''],
      authUrl = None, tokenUrl = None, userInfoUrl = None, usePKCE = None\<rparr>"

definition slack_integration :: Integration where
  "slack_integration =
     \<lparr>int_oauth = Some slack_config, oauthProvider = Some (SlackOAuth_new slack_config),
      authorized_handlers = []\<rparr>"

definition oauth_world1 :: oauth_world where
  "oauth_world1 =
     \<lparr>state_bytes = [0x00, 0x11, 0x22, 0x33, 0x44, 0x55, 0x66, 0x77,
                     0x88, 0x99, 0xaa, 0xbb, 0xcc, 0xdd, 0xee, 0xff],
      pkce_bytes = [], facade_state = ''k3j2h1lx1y2z''\<rparr>"

definition oauth_world2 :: oauth_world where
  "oauth_world2 =
     \<lparr>state_bytes = [0x01, 0x11, 0x22, 0x33, 0x44, 0x55, 0x66, 0x77,
                     0x88, 0x99, 0xaa, 0xbb, 0xcc, 0xdd, 0xee, 0xff],
      pkce_bytes = [], facade_state = ''k3j2h1lx1y2z''\<rparr>"

definition test_context :: IntegrationContext where
  "test_context =
     \<lparr>userId = Some ''test-user'', organizationId = None, installationId = None, metadata = []\<rparr>"

section \<open>Properties of the signature validators\<close>

lemma generate_format:
  "validator_generate m hmac P S = method_name m @ ''='' @ hmac (method_name m) S P"
  by (cases m) (simp_all add: method_name_def HmacSha256Validator_generate_def
      HmacSha1Validator_generate_def)

lemma validate_eq:
  "validator_validate m hmac P sig S = timingSafeEqual sig (validator_generate m hmac P S)"
  by (cases m) (simp_all add: HmacSha256Validator_validate_def HmacSha1Validator_validate_def)

lemma test_hmac_abc: "test_hmac ''sha256'' ''s3cr3t'' ''abc'' = ''48''"
  by (simp add: test_hmac_def to_hex_def hex_byte_def hex_digit_def)

lemma test_hmac_xbc: "test_hmac ''sha256'' ''s3cr3t'' ''xbc'' = ''5f''"
  by (simp add: test_hmac_def to_hex_def hex_byte_def hex_digit_def)

text \<open>
  C2. Both validators hand the candidate and the expected signature to
  \<open>timingSafeEqual\<close> without comparing their lengths first. For a candidate whose byte
  length differs from that of the expected signature the call does not return
  \<open>false\<close>: it throws the RangeError of \<open>timingSafeEqual\<close>.
\<close>

theorem length_mismatch_throws:
  "length sig \<noteq> length (validator_generate m hmac P S) \<Longrightarrow>
   validator_validate m hmac P sig S =
     Inl (RangeError ''Input buffers must have the same byte length'')"
  by (cases m)
     (simp_all add: HmacSha256Validator_validate_def HmacSha1Validator_validate_def
        timingSafeEqual_def)

theorem length_mismatch_throws_witness:
  "length ''sha256=0'' \<noteq> length (validator_generate HmacSha256 test_hmac ''abc'' ''s3cr3t'') \<and>
   validator_validate HmacSha256 test_hmac ''abc'' ''sha256=0'' ''s3cr3t'' =
     Inl (RangeError ''Input buffers must have the same byte length'')"
proof -
  have h: "length ''sha256=0'' \<noteq> length (validator_generate HmacSha256 test_hmac ''abc'' ''s3cr3t'')"
    by (simp add: HmacSha256Validator_generate_def test_hmac_abc)
  show ?thesis using h length_mismatch_throws [OF h] by simp
qed

text \<open>
  Inside \<open>WebhookValidator.validate\<close> that error is caught: a signature header of the wrong
  length gives the verdict \<open>Validation error: ...\<close>, not \<open>Invalid signature\<close>.
\<close>

lemma wrong_length_signature_verdict:
  "validate test_hmac (signed_payload ''sha256=4'') push_config =
     \<lparr>isValid = False,
      vr_error = Some ''Validation error: Input buffers must have the same byte length'',
      vr_event = None\<rparr>"
  by (simp add: validate_def check_signature_def validateSignature_def truthy_def
      or_default_def validation_error_def toLowerCase_def lower_char_def timingSafeEqual_def
      HmacSha256Validator_validate_def HmacSha256Validator_generate_def signed_payload_def
      push_config_def test_hmac_abc)

text \<open>
  What does hold of the two validators, for every digest function: the generated
  signature verifies; it is the algorithm name, \<open>=\<close>, and the hex digest of the runtime;
  and replacing any one byte of it by a different byte makes verification return
  false.
\<close>

lemma generated_signature_verifies:
  "validator_validate m hmac P (validator_generate m hmac P S) S = Inr True \<and>
   validator_generate m hmac P S = method_name m @ ''='' @ hmac (method_name m) S P \<and>
   (i < length (validator_generate m hmac P S) \<and> b \<noteq> validator_generate m hmac P S ! i \<longrightarrow>
      validator_validate m hmac P ((validator_generate m hmac P S)[i := b]) S = Inr False)"
proof (intro conjI impI)
  show "validator_validate m hmac P (validator_generate m hmac P S) S = Inr True"
    by (simp add: validate_eq timingSafeEqual_def)
  show "validator_generate m hmac P S = method_name m @ ''='' @ hmac (method_name m) S P"
    by (rule generate_format)
next
  assume a: "i < length (validator_generate m hmac P S) \<and> b \<noteq> validator_generate m hmac P S ! i"
  have "(validator_generate m hmac P S)[i := b] ! i \<noteq> validator_generate m hmac P S ! i"
    using a by simp
  then have "(validator_generate m hmac P S)[i := b] \<noteq> validator_generate m hmac P S"
    by metis
  then show "validator_validate m hmac P ((validator_generate m hmac P S)[i := b]) S = Inr False"
    by (simp add: validate_eq timingSafeEqual_def)
qed

lemma generate_not_empty: "validator_generate m hmac P S \<noteq> []"
  by (cases m) (simp_all add: HmacSha256Validator_generate_def HmacSha1Validator_generate_def)

text \<open>
  C3. The generated signature verifies, but not every single-byte mutation of it makes
  verification return false: for the signature with its last byte removed, for the
  signature with one byte appended, and for the signature whose last character is
  replaced by a character of two bytes, verification returns nothing. It throws the
  RangeError of \<open>timingSafeEqual\<close>, for every payload, secret, method and digest function.
\<close>

theorem mutated_signature_throws:
  "validator_validate m hmac P (validator_generate m hmac P S) S = Inr True \<and>
   validator_validate m hmac P (butlast (validator_generate m hmac P S)) S =
     Inl (RangeError ''Input buffers must have the same byte length'') \<and>
   validator_validate m hmac P (validator_generate m hmac P S @ [c]) S =
     Inl (RangeError ''Input buffers must have the same byte length'') \<and>
   validator_validate m hmac P (butlast (validator_generate m hmac P S) @ [c, c']) S =
     Inl (RangeError ''Input buffers must have the same byte length'')"
proof (intro conjI)
  show "validator_validate m hmac P (validator_generate m hmac P S) S = Inr True"
    by (simp add: validate_eq timingSafeEqual_def)
  have "length (butlast (validator_generate m hmac P S)) \<noteq> length (validator_generate m hmac P S)"
    using generate_not_empty [of m hmac P S] by (cases "validator_generate m hmac P S") simp_all
  then show "validator_validate m hmac P (butlast (validator_generate m hmac P S)) S =
     Inl (RangeError ''Input buffers must have the same byte length'')"
    unfolding validate_eq timingSafeEqual_def by (rule if_P)
  show "validator_validate m hmac P (validator_generate m hmac P S @ [c]) S =
     Inl (RangeError ''Input buffers must have the same byte length'')"
    by (simp add: validate_eq timingSafeEqual_def)
  have "length (butlast (validator_generate m hmac P S) @ [c, c']) \<noteq>
        length (validator_generate m hmac P S)"
    using generate_not_empty [of m hmac P S] by (cases "validator_generate m hmac P S") simp_all
  then show "validator_validate m hmac P (butlast (validator_generate m hmac P S) @ [c, c']) S =
     Inl (RangeError ''Input buffers must have the same byte length'')"
    unfolding validate_eq timingSafeEqual_def by (rule if_P)
qed

theorem mutated_signature_throws_witness:
  "validator_generate HmacSha256 test_hmac ''abc'' ''s3cr3t'' = ''sha256=48'' \<and>
   validator_validate HmacSha256 test_hmac ''abc'' ''sha256=48'' ''s3cr3t'' = Inr True \<and>
   validator_validate HmacSha256 test_hmac ''abc'' ''sha256=4'' ''s3cr3t'' =
     Inl (RangeError ''Input buffers must have the same byte length'') \<and>
   validator_validate HmacSha256 test_hmac ''abc'' ''sha256=48a'' ''s3cr3t'' =
     Inl (RangeError ''Input buffers must have the same byte length'') \<and>
   validator_validate HmacSha256 test_hmac ''abc'' (''sha256=4'' @ [CHR 0xC3, CHR 0xA9]) ''s3cr3t'' =
     Inl (RangeError ''Input buffers must have the same byte length'')"
  using mutated_signature_throws [of HmacSha256 test_hmac "''abc''" "''s3cr3t''" "CHR ''a''"
      "CHR ''a''"]
    mutated_signature_throws [of HmacSha256 test_hmac "''abc''" "''s3cr3t''" "CHR 0xC3" "CHR 0xA9"]
  by (simp add: HmacSha256Validator_generate_def test_hmac_abc)

section \<open>Properties of the webhook validator and of process\<close>

lemmas validate_defs = validate_def check_signature_def check_event_def extractEventType_def
  validateSignature_def truthy_def or_default_def js_or_def validation_error_def
  eventHeaders_def toLowerCase_def lower_char_def timingSafeEqual_def
  HmacSha256Validator_validate_def HmacSha256Validator_generate_def


text \<open>
  C4, as stated, fails: with the allow-list \<open>["push"]\<close>, a payload with no event header
  and an object body without event fields is classified as having no event, and the
  verdict is valid with an absent event name. The source guards the membership test by
  \<open>event &&\<close>.
\<close>

theorem absent_event_passes_allow_list:
  "events push_config \<noteq> [] \<and>
   validate test_hmac (unsigned_payload [] (BodyObject Map.empty)) push_config =
     \<lparr>isValid = True, vr_error = None, vr_event = None\<rparr>"
  by (simp add: validate_defs unsigned_payload_def push_config_def)

lemma validate_valid_event:
  assumes "isValid (validate hmac payload config)"
  shows "extractEventType payload config = Inr (vr_event (validate hmac payload config))"
    and "events config \<noteq> [] \<Longrightarrow> truthy (vr_event (validate hmac payload config)) \<Longrightarrow>
         or_default (vr_event (validate hmac payload config)) [] \<in> set (events config)"
  using assms
  by (auto simp add: validate_def check_event_def validation_error_def
      split: if_splits sum.splits)

text \<open>
  C4, amended. For a non-empty allow-list: a valid verdict carries the classified
  event, and that event is absent (undefined or empty) or a member of the allow-list.
  When the payload passes the presence and signature checks, the verdict follows from
  the classified event alone: non-empty and not a member, it is the rejection
  \<open>Unsupported event type: <event>\<close>; absent, the membership test is skipped and the
  verdict is valid with that absent event; a member, the verdict is valid with it.
\<close>

theorem allow_list_membership:
  "events config \<noteq> [] \<Longrightarrow>
   (isValid (validate hmac payload config) \<longrightarrow>
      extractEventType payload config = Inr (vr_event (validate hmac payload config)) \<and>
      (\<not> truthy (vr_event (validate hmac payload config)) \<or>
       or_default (vr_event (validate hmac payload config)) [] \<in> set (events config))) \<and>
   (body_truthy (body payload) \<and> headers payload \<noteq> None \<and>
    check_signature hmac payload config = Inr True \<and>
    extractEventType payload config = Inr (Some ev) \<and> ev \<noteq> [] \<and> ev \<notin> set (events config) \<longrightarrow>
      validate hmac payload config =
        \<lparr>isValid = False, vr_error = Some (''Unsupported event type: '' @ ev), vr_event = None\<rparr>) \<and>
   (body_truthy (body payload) \<and> headers payload \<noteq> None \<and>
    check_signature hmac payload config = Inr True \<and>
    extractEventType payload config = Inr e \<and> \<not> truthy e \<longrightarrow>
      validate hmac payload config = \<lparr>isValid = True, vr_error = None, vr_event = e\<rparr>) \<and>
   (body_truthy (body payload) \<and> headers payload \<noteq> None \<and>
    check_signature hmac payload config = Inr True \<and>
    extractEventType payload config = Inr (Some ev) \<and> ev \<in> set (events config) \<longrightarrow>
      validate hmac payload config =
        \<lparr>isValid = True, vr_error = None, vr_event = Some ev\<rparr>)"
proof (intro conjI impI)
  assume v: "isValid (validate hmac payload config)"
  show "extractEventType payload config = Inr (vr_event (validate hmac payload config))"
    using v by (rule validate_valid_event(1))
  assume e: "events config \<noteq> []"
  show "\<not> truthy (vr_event (validate hmac payload config)) \<or>
       or_default (vr_event (validate hmac payload config)) [] \<in> set (events config)"
    using validate_valid_event(2) [OF v e] by blast
next
  assume e: "events config \<noteq> []"
  assume "body_truthy (body payload) \<and> headers payload \<noteq> None \<and>
    check_signature hmac payload config = Inr True \<and>
    extractEventType payload config = Inr (Some ev) \<and> ev \<noteq> [] \<and> ev \<notin> set (events config)"
  then show "validate hmac payload config =
        \<lparr>isValid = False, vr_error = Some (''Unsupported event type: '' @ ev), vr_event = None\<rparr>"
    using e by (simp add: validate_def check_event_def truthy_def or_default_def)
next
  assume "body_truthy (body payload) \<and> headers payload \<noteq> None \<and>
    check_signature hmac payload config = Inr True \<and>
    extractEventType payload config = Inr e \<and> \<not> truthy e"
  then show "validate hmac payload config = \<lparr>isValid = True, vr_error = None, vr_event = e\<rparr>"
    by (simp add: validate_def check_event_def)
next
  assume "body_truthy (body payload) \<and> headers payload \<noteq> None \<and>
    check_signature hmac payload config = Inr True \<and>
    extractEventType payload config = Inr (Some ev) \<and> ev \<in> set (events config)"
  then show "validate hmac payload config =
        \<lparr>isValid = True, vr_error = None, vr_event = Some ev\<rparr>"
    by (simp add: validate_def check_event_def or_default_def)
qed

lemma validate_signed_push:
  "validate test_hmac (signed_payload ''sha256=48'') push_config =
     \<lparr>isValid = True, vr_error = None, vr_event = Some ''push''\<rparr>"
  by (simp add: validate_defs signed_payload_def push_config_def test_hmac_abc)

lemma validate_tampered:
  "validate test_hmac (signed_payload ''sha256=49'') push_config =
     \<lparr>isValid = False, vr_error = Some ''Invalid signature'', vr_event = None\<rparr>"
  by (simp add: validate_defs signed_payload_def push_config_def test_hmac_abc)


theorem allow_list_membership_witness:
  "events push_config \<noteq> [] \<and>
   isValid (validate test_hmac (signed_payload ''sha256=48'') push_config) \<and>
   vr_event (validate test_hmac (signed_payload ''sha256=48'') push_config) = Some ''push'' \<and>
   ''push'' \<in> set (events push_config) \<and>
   validate test_hmac
     (unsigned_payload [(''x-github-event'', ''pull_request'')] (BodyObject Map.empty)) push_config =
     \<lparr>isValid = False, vr_error = Some ''Unsupported event type: pull_request'',
      vr_event = None\<rparr> \<and>
   extractEventType (unsigned_payload [] (BodyObject Map.empty)) push_config = Inr None \<and>
   validate test_hmac (unsigned_payload [] (BodyObject Map.empty)) push_config =
     \<lparr>isValid = True, vr_error = None, vr_event = None\<rparr> \<and>
   validate test_hmac
     (unsigned_payload [(''x-github-event'', ''push'')] (BodyObject Map.empty)) push_config =
     \<lparr>isValid = True, vr_error = None, vr_event = Some ''push''\<rparr>"
proof -
  have e: "events push_config \<noteq> []" by (simp add: push_config_def)
  have a: "extractEventType (signed_payload ''sha256=48'') push_config = Inr (Some ''push'') \<and>
           ''push'' \<in> set (events push_config)"
    using allow_list_membership [OF e, where hmac = test_hmac
        and payload = "signed_payload ''sha256=48''", THEN conjunct1]
    by (simp add: validate_signed_push truthy_def or_default_def)
  have b: "validate test_hmac
     (unsigned_payload [(''x-github-event'', ''pull_request'')] (BodyObject Map.empty)) push_config =
     \<lparr>isValid = False, vr_error = Some ''Unsupported event type: pull_request'',
      vr_event = None\<rparr>"
    using allow_list_membership [OF e, where hmac = test_hmac
        and payload = "unsigned_payload [(''x-github-event'', ''pull_request'')]
                         (BodyObject Map.empty)"
        and ev = "''pull_request''", THEN conjunct2, THEN conjunct1]
    by (simp add: validate_defs unsigned_payload_def push_config_def)
  have c0: "extractEventType (unsigned_payload [] (BodyObject Map.empty)) push_config = Inr None"
    by (simp add: validate_defs unsigned_payload_def)
  have c1: "body_truthy (body (unsigned_payload [] (BodyObject Map.empty))) \<and>
    headers (unsigned_payload [] (BodyObject Map.empty)) \<noteq> None \<and>
    check_signature test_hmac (unsigned_payload [] (BodyObject Map.empty)) push_config = Inr True \<and>
    \<not> truthy None"
    by (simp add: unsigned_payload_def check_signature_def truthy_def)
  have c: "validate test_hmac (unsigned_payload [] (BodyObject Map.empty)) push_config =
     \<lparr>isValid = True, vr_error = None, vr_event = None\<rparr>"
    using allow_list_membership [OF e, where hmac = test_hmac
        and payload = "unsigned_payload [] (BodyObject Map.empty)" and e = None,
        THEN conjunct2, THEN conjunct2, THEN conjunct1] c0 c1
    by blast
  have d0: "extractEventType
     (unsigned_payload [(''x-github-event'', ''push'')] (BodyObject Map.empty)) push_config =
     Inr (Some ''push'') \<and> ''push'' \<in> set (events push_config)"
    by (simp add: validate_defs unsigned_payload_def push_config_def)
  have d1: "body_truthy (body (unsigned_payload [(''x-github-event'', ''push'')]
      (BodyObject Map.empty))) \<and>
    headers (unsigned_payload [(''x-github-event'', ''push'')] (BodyObject Map.empty)) \<noteq> None \<and>
    check_signature test_hmac
      (unsigned_payload [(''x-github-event'', ''push'')] (BodyObject Map.empty)) push_config =
      Inr True"
    by (simp add: unsigned_payload_def check_signature_def truthy_def)
  have d: "validate test_hmac
     (unsigned_payload [(''x-github-event'', ''push'')] (BodyObject Map.empty)) push_config =
     \<lparr>isValid = True, vr_error = None, vr_event = Some ''push''\<rparr>"
    using allow_list_membership [OF e, where hmac = test_hmac
        and payload = "unsigned_payload [(''x-github-event'', ''push'')] (BodyObject Map.empty)"
        and ev = "''push''", THEN conjunct2, THEN conjunct2, THEN conjunct2] d0 d1
    by blast
  show ?thesis using e a b c0 c d by (simp add: validate_signed_push)
qed

text \<open>
  C5. When validation fails, \<open>process\<close> returns the failure result with code
  \<open>VALIDATION_FAILED\<close>, \<open>retryable: false\<close> and the validator's reason, and the
  processor (handlers, delivery objects, deliveries map) is unchanged.
\<close>

theorem invalid_payload_not_recorded:
  "\<not> isValid (validate hmac payload config) \<Longrightarrow>
   process hmac w payload config context s =
     (\<lparr>success = False, res_event = None, data = None,
       res_error = Some \<lparr>code = ''VALIDATION_FAILED'',
                         message = or_default (vr_error (validate hmac payload config))
                                     ''Webhook validation failed'',
                         details = None, retryable = Some False\<rparr>,
       shouldRetry = None\<rparr>, s)"
  by (simp add: process_def failure_def Let_def)

theorem invalid_payload_not_recorded_witness:
  "\<not> isValid (validate test_hmac (signed_payload ''sha256=49'') push_config) \<and>
   process test_hmac world0 (signed_payload ''sha256=49'') push_config no_context
     (on ''push'' ok_handler WebhookProcessor_new) =
     (\<lparr>success = False, res_event = None, data = None,
       res_error = Some \<lparr>code = ''VALIDATION_FAILED'', message = ''Invalid signature'',
                         details = None, retryable = Some False\<rparr>,
       shouldRetry = None\<rparr>, on ''push'' ok_handler WebhookProcessor_new) \<and>
   deliveries (snd (process test_hmac world0 (signed_payload ''sha256=49'') push_config no_context
     (on ''push'' ok_handler WebhookProcessor_new))) = []"
proof -
  have h: "\<not> isValid (validate test_hmac (signed_payload ''sha256=49'') push_config)"
    by (simp add: validate_tampered)
  show ?thesis
    using h invalid_payload_not_recorded [OF h, of world0 no_context "on ''push'' ok_handler WebhookProcessor_new"]
    by (simp add: validate_tampered or_default_def on_def WebhookProcessor_new_def)
qed

text \<open>
  C7. With a secret configured and no signature on the payload, the signature check is
  skipped: the verdict is the one the same configuration without a secret gives, it is
  the outcome of event classification and allow-listing once body and headers are
  present, and its reason is never \<open>Invalid signature\<close>.
\<close>

theorem missing_signature_is_skipped:
  "truthy (secret config) \<Longrightarrow> \<not> truthy (signature payload) \<Longrightarrow>
   check_signature hmac payload config = Inr True \<and>
   validate hmac payload config = validate hmac payload (config\<lparr>secret := None\<rparr>) \<and>
   (body_truthy (body payload) \<and> headers payload \<noteq> None \<longrightarrow>
      validate hmac payload config = check_event payload config) \<and>
   vr_error (validate hmac payload config) \<noteq> Some ''Invalid signature''"
  by (auto simp add: validate_def check_signature_def check_event_def extractEventType_def
      validation_error_def truthy_def split: sum.splits option.splits)

theorem missing_signature_is_skipped_witness:
  "truthy (secret push_config) \<and>
   \<not> truthy (signature (unsigned_payload [(''x-github-event'', ''push'')] (BodyObject Map.empty))) \<and>
   validate test_hmac (unsigned_payload [(''x-github-event'', ''push'')] (BodyObject Map.empty))
     push_config = \<lparr>isValid = True, vr_error = None, vr_event = Some ''push''\<rparr>"
proof -
  have a: "truthy (secret push_config)" by (simp add: push_config_def truthy_def)
  have b: "\<not> truthy (signature (unsigned_payload [(''x-github-event'', ''push'')] (BodyObject Map.empty)))"
    by (simp add: unsigned_payload_def truthy_def)
  have c: "check_event (unsigned_payload [(''x-github-event'', ''push'')] (BodyObject Map.empty))
     push_config = \<lparr>isValid = True, vr_error = None, vr_event = Some ''push''\<rparr>"
    by (simp add: validate_defs unsigned_payload_def push_config_def)
  have d: "body_truthy (body (unsigned_payload [(''x-github-event'', ''push'')] (BodyObject Map.empty))) \<and>
           headers (unsigned_payload [(''x-github-event'', ''push'')] (BodyObject Map.empty)) \<noteq> None"
    by (simp add: unsigned_payload_def)
  have "validate test_hmac (unsigned_payload [(''x-github-event'', ''push'')] (BodyObject Map.empty))
     push_config = check_event (unsigned_payload [(''x-github-event'', ''push'')] (BodyObject Map.empty))
     push_config"
    using missing_signature_is_skipped [OF a b, of test_hmac] d by blast
  then show ?thesis using a b c by simp
qed


section \<open>Properties of the backoff function\<close>

text \<open>
  C6. With \<open>n\<close> the 0-based attempt index: under the linear strategy the delay is
  \<open>min (baseDelay * (n + 1)) maxDelay\<close>; under the exponential strategy, for a base
  delay that is not negative and a draw of \<open>Math.random()\<close> in \<open>[0, 1)\<close>, it is
  \<open>min (baseDelay * 2 ^ n + jitter) maxDelay\<close> for a jitter between \<open>0\<close> and
  \<open>0.1 * baseDelay * 2 ^ n\<close>; and the linear policy with base delay 1000 and cap 5000
  gives 1000, 2000, 3000, 4000, 5000 at the indices 0 to 4.
\<close>

theorem backoff_delay:
  "(backoffStrategy policy = Linear \<longrightarrow>
      calculateRetryDelay rnd n policy = min (baseDelay policy * (real n + 1)) (maxDelay policy)) \<and>
   (backoffStrategy policy = Exponential \<and> 0 \<le> baseDelay policy \<and> 0 \<le> rnd \<and> rnd < 1 \<longrightarrow>
      (\<exists>jitter. 0 \<le> jitter \<and> jitter \<le> 0.1 * baseDelay policy * 2 ^ n \<and>
         calculateRetryDelay rnd n policy =
           min (baseDelay policy * 2 ^ n + jitter) (maxDelay policy))) \<and>
   map (\<lambda>k. calculateRetryDelay rnd k linear_policy) [0, 1, 2, 3, 4] =
     [1000, 2000, 3000, 4000, 5000]"
proof (intro conjI impI)
  assume "backoffStrategy policy = Linear"
  then show "calculateRetryDelay rnd n policy = min (baseDelay policy * (real n + 1)) (maxDelay policy)"
    by (simp add: calculateRetryDelay_def)
next
  assume a: "backoffStrategy policy = Exponential \<and> 0 \<le> baseDelay policy \<and> 0 \<le> rnd \<and> rnd < 1"
  let ?e = "baseDelay policy * 2 ^ n"
  let ?j = "rnd * 0.1 * ?e"
  have e: "0 \<le> ?e" using a by simp
  have j0: "0 \<le> ?j" using a e by simp
  have "rnd * (0.1 * ?e) \<le> 1 * (0.1 * ?e)"
    using a e by (intro mult_right_mono) simp_all
  then have j1: "?j \<le> 0.1 * baseDelay policy * 2 ^ n" by (simp add: mult.assoc)
  have "calculateRetryDelay rnd n policy = min (?e + ?j) (maxDelay policy)"
    using a by (simp add: calculateRetryDelay_def Let_def)
  with j0 j1 show "\<exists>jitter. 0 \<le> jitter \<and> jitter \<le> 0.1 * baseDelay policy * 2 ^ n \<and>
         calculateRetryDelay rnd n policy =
           min (baseDelay policy * 2 ^ n + jitter) (maxDelay policy)"
    by blast
next
  show "map (\<lambda>k. calculateRetryDelay rnd k linear_policy) [0, 1, 2, 3, 4] =
     [1000, 2000, 3000, 4000, 5000]"
    by (simp add: calculateRetryDelay_def linear_policy_def)
qed

theorem backoff_delay_witness:
  "calculateRetryDelay (1/2) 3 linear_policy = 4000 \<and>
   (\<exists>jitter. 0 \<le> jitter \<and> jitter \<le> 400 \<and>
      calculateRetryDelay (1/2) 2 getDefaultRetryPolicy = min (4000 + jitter) 60000)"
proof -
  have a: "calculateRetryDelay (1/2) 3 linear_policy = 4000"
    using backoff_delay [of linear_policy "1/2" 3] by (simp add: linear_policy_def)
  have b: "\<exists>jitter. 0 \<le> jitter \<and> jitter \<le> 400 \<and>
      calculateRetryDelay (1/2) 2 getDefaultRetryPolicy = min (4000 + jitter) 60000"
    using backoff_delay [of getDefaultRetryPolicy "1/2" 2] by (simp add: getDefaultRetryPolicy_def)
  show ?thesis using a b by simp
qed


section \<open>Properties of process and retry\<close>

lemma map_set_keys: "fst ` set (map_set k v ps) = insert k (fst ` set ps)"
  by (induction ps) auto

lemma map_set_length: "k \<notin> fst ` set ps \<Longrightarrow> length (map_set k v ps) = Suc (length ps)"
  by (induction ps) auto

lemma map_of_map_set: "map_of (map_set k v ps) = (map_of ps)(k \<mapsto> v)"
  by (induction ps) (auto simp add: fun_eq_iff)

lemma process_reaches:
  assumes "reaches_handler hmac payload config s"
  shows "\<exists>ev st e. snd (process hmac w payload config ctx s) =
           recordDelivery (new_delivery w config ev payload st e) s"
  using assms
  by (auto simp add: reaches_handler_def process_def run_handler_def Let_def
      split: option.splits outcome.splits)

lemma process_not_reaches:
  assumes "\<not> reaches_handler hmac payload config s"
  shows "snd (process hmac w payload config ctx s) = s"
  using assms
  by (auto simp add: reaches_handler_def process_def Let_def split: option.splits)

lemma process_heap:
  "heap (snd (process hmac w payload config ctx s)) =
     (if reaches_handler hmac payload config s
      then heap s @ [heap (snd (process hmac w payload config ctx s)) ! length (heap s)]
      else heap s)"
proof (cases "reaches_handler hmac payload config s")
  case True
  from process_reaches [OF True] obtain ev st e where
    "snd (process hmac w payload config ctx s) =
       recordDelivery (new_delivery w config ev payload st e) s" by blast
  then show ?thesis using True by (simp add: recordDelivery_def)
next
  case False
  then show ?thesis by (simp add: process_not_reaches)
qed

lemma process_new_object:
  assumes "reaches_handler hmac payload config s"
  shows "length (heap (snd (process hmac w payload config ctx s))) = Suc (length (heap s))"
    and "dlv_id (heap (snd (process hmac w payload config ctx s)) ! length (heap s)) = delivery_id w"
    and "length (attempts (heap (snd (process hmac w payload config ctx s)) ! length (heap s))) = 1"
    and "deliveries (snd (process hmac w payload config ctx s)) =
           map_set (delivery_id w) (length (heap s)) (deliveries s)"
    and "a < length (heap s) \<Longrightarrow> heap (snd (process hmac w payload config ctx s)) ! a = heap s ! a"
proof -
  from process_reaches [OF assms] obtain ev st e where
    p: "snd (process hmac w payload config ctx s) =
       recordDelivery (new_delivery w config ev payload st e) s" by blast
  show "length (heap (snd (process hmac w payload config ctx s))) = Suc (length (heap s))"
    by (simp add: p recordDelivery_def)
  show "dlv_id (heap (snd (process hmac w payload config ctx s)) ! length (heap s)) = delivery_id w"
    by (simp add: p recordDelivery_def new_delivery_def)
  show "length (attempts (heap (snd (process hmac w payload config ctx s)) ! length (heap s))) = 1"
    by (simp add: p recordDelivery_def new_delivery_def)
  show "deliveries (snd (process hmac w payload config ctx s)) =
           map_set (delivery_id w) (length (heap s)) (deliveries s)"
    by (simp add: p recordDelivery_def new_delivery_def)
  show "a < length (heap s) \<Longrightarrow> heap (snd (process hmac w payload config ctx s)) ! a = heap s ! a"
    by (simp add: p recordDelivery_def nth_append)
qed

lemma process_handlers: "eventHandlers (snd (process hmac w payload config ctx s)) = eventHandlers s"
  by (cases "reaches_handler hmac payload config s")
     (auto simp add: process_not_reaches recordDelivery_def dest: process_reaches [where w = w and ctx = ctx])

lemma process_old_object:
  "a < length (heap s) \<Longrightarrow> heap (snd (process hmac w payload config ctx s)) ! a = heap s ! a"
  by (cases "reaches_handler hmac payload config s")
     (simp_all add: process_not_reaches process_new_object(5))

lemma process_heap_length:
  "length (heap s) \<le> length (heap (snd (process hmac w payload config ctx s)))"
  by (cases "reaches_handler hmac payload config s")
     (simp_all add: process_not_reaches process_new_object(1))

lemma find_handler_cong:
  "eventHandlers s' = eventHandlers s \<Longrightarrow> find_handler s' ev = find_handler s ev"
  by (simp add: find_handler_def read_handler_def split: option.splits)

lemma reaches_handler_cong:
  "eventHandlers s' = eventHandlers s \<Longrightarrow>
   reaches_handler hmac payload config s' = reaches_handler hmac payload config s"
  using find_handler_cong [of s' s] by (simp add: reaches_handler_def)

lemma set_status_fields:
  "heap (set_status a st s) = (heap s)[a := (heap s ! a)\<lparr>status := st\<rparr>]"
  "deliveries (set_status a st s) = deliveries s"
  "eventHandlers (set_status a st s) = eventHandlers s"
  by (simp_all add: set_status_def)

lemma push_attempt_fields:
  "heap (push_attempt a x s) = (heap s)[a := (heap s ! a)\<lparr>attempts := attempts (heap s ! a) @ [x]\<rparr>]"
  "deliveries (push_attempt a x s) = deliveries s"
  "eventHandlers (push_attempt a x s) = eventHandlers s"
  by (simp_all add: push_attempt_def)

lemma retry_attempt_unfold:
  "retry_attempt hmac w a n policy payload config ctx s =
     (let p = process hmac w payload config ctx (set_status a Retrying s);
          x = \<lparr>attempt = int n + 1, att_timestamp = now w, att_error = error_text (fst p),
               nextRetry = (if shouldRetry (fst p) = Some True
                            then Some (now w + calculateRetryDelay (random w) n policy)
                            else None)\<rparr>
      in (fst p,
          if success (fst p) then set_status a Delivered (push_attempt a x (snd p))
          else if shouldRetry (fst p) \<noteq> Some True
               then set_status a Failed (push_attempt a x (snd p))
               else push_attempt a x (snd p)))"
  by (simp add: retry_attempt_def await_process_def Let_def split: prod.splits)

lemma process_keeps_retried:
  assumes "a < length (heap s)"
  shows "a < length (heap (snd (process hmac w payload config ctx (set_status a st s))))"
    and "attempts (heap (snd (process hmac w payload config ctx (set_status a st s))) ! a) =
           attempts (heap s ! a)"
proof -
  have a0: "a < length (heap (set_status a st s))"
    using assms by (simp add: set_status_fields)
  show "a < length (heap (snd (process hmac w payload config ctx (set_status a st s))))"
    using a0 process_heap_length [of "set_status a st s" hmac w payload config ctx]
    by linarith
  have "heap (snd (process hmac w payload config ctx (set_status a st s))) ! a =
          heap (set_status a st s) ! a"
    using a0 by (rule process_old_object)
  also have "\<dots> = (heap s ! a)\<lparr>status := st\<rparr>"
    using assms by (simp add: set_status_fields)
  finally show "attempts (heap (snd (process hmac w payload config ctx (set_status a st s))) ! a) =
           attempts (heap s ! a)"
    by simp
qed

lemma retry_attempt_attempts:
  assumes "a < length (heap s)"
  shows "\<exists>x. attempts (heap (snd (retry_attempt hmac w a n policy payload config ctx s)) ! a) =
               attempts (heap s ! a) @ [x] \<and> attempt x = int n + 1"
  using process_keeps_retried [OF assms, of hmac w payload config ctx Retrying]
  by (simp add: retry_attempt_unfold Let_def set_status_fields push_attempt_fields)

lemma retry_attempt_frame:
  "length (heap (snd (retry_attempt hmac w a n policy payload config ctx s))) =
     length (heap (snd (process hmac w payload config ctx (set_status a Retrying s))))"
  "b \<noteq> a \<Longrightarrow> heap (snd (retry_attempt hmac w a n policy payload config ctx s)) ! b =
     heap (snd (process hmac w payload config ctx (set_status a Retrying s))) ! b"
  "deliveries (snd (retry_attempt hmac w a n policy payload config ctx s)) =
     deliveries (snd (process hmac w payload config ctx (set_status a Retrying s)))"
  "eventHandlers (snd (retry_attempt hmac w a n policy payload config ctx s)) = eventHandlers s"
  "fst (retry_attempt hmac w a n policy payload config ctx s) =
     fst (process hmac w payload config ctx (set_status a Retrying s))"
  by (simp_all add: retry_attempt_unfold Let_def set_status_fields push_attempt_fields
      process_handlers)

lemma deliveries_get_Some:
  "deliveries_get s deliveryId = Some a \<longleftrightarrow>
     map_of (deliveries s) deliveryId = Some a \<and> a < length (heap s)"
  by (auto simp add: deliveries_get_def split: option.splits if_splits)

lemma retry_refused:
  assumes "deliveries_get s deliveryId = Some a"
    and "maxRetries (retry_policy_of config) \<le> int (length (attempts (heap s ! a)))"
  shows "retry hmac w deliveryId payload config ctx s =
     (failure ''MAX_RETRIES_EXCEEDED''
        (''Maximum retry attempts ('' @ show_int (maxRetries (retry_policy_of config)) @ '') exceeded''),
      set_status a Failed s)"
  using assms by (simp add: retry_def Let_def)

lemma retry_below:
  assumes "deliveries_get s deliveryId = Some a"
    and "int (length (attempts (heap s ! a))) < maxRetries (retry_policy_of config)"
  shows "retry hmac w deliveryId payload config ctx s =
     retry_attempt hmac w a (length (attempts (heap s ! a))) (retry_policy_of config)
       payload config ctx s"
  using assms by (simp add: retry_def Let_def)

lemma retry_attempts_cases:
  assumes g: "deliveries_get s deliveryId = Some a"
  shows "(int (length (attempts (heap s ! a))) < maxRetries (retry_policy_of config) \<longrightarrow>
           (\<exists>x. attempts (heap (snd (retry hmac w deliveryId payload config ctx s)) ! a) =
                  attempts (heap s ! a) @ [x] \<and>
                attempt x = int (length (attempts (heap s ! a))) + 1)) \<and>
         (maxRetries (retry_policy_of config) \<le> int (length (attempts (heap s ! a))) \<longrightarrow>
           attempts (heap (snd (retry hmac w deliveryId payload config ctx s)) ! a) =
             attempts (heap s ! a) \<and>
           status (heap (snd (retry hmac w deliveryId payload config ctx s)) ! a) = Failed)"
proof (intro conjI impI)
  have a: "a < length (heap s)" using g by (simp add: deliveries_get_Some)
  {
    assume b: "int (length (attempts (heap s ! a))) < maxRetries (retry_policy_of config)"
    show "\<exists>x. attempts (heap (snd (retry hmac w deliveryId payload config ctx s)) ! a) =
                  attempts (heap s ! a) @ [x] \<and>
                attempt x = int (length (attempts (heap s ! a))) + 1"
      using retry_attempt_attempts [OF a] by (simp add: retry_below [OF g b])
  }
  {
    assume b: "maxRetries (retry_policy_of config) \<le> int (length (attempts (heap s ! a)))"
    show "attempts (heap (snd (retry hmac w deliveryId payload config ctx s)) ! a) =
             attempts (heap s ! a)"
      using a by (simp add: retry_refused [OF g b] set_status_fields)
    show "status (heap (snd (retry hmac w deliveryId payload config ctx s)) ! a) = Failed"
      using a by (simp add: retry_refused [OF g b] set_status_fields)
  }
qed

lemma retry_reaches:
  assumes g: "deliveries_get s deliveryId = Some a"
    and b: "int (length (attempts (heap s ! a))) < maxRetries (retry_policy_of config)"
    and r: "reaches_handler hmac payload config s"
  shows "length (heap (snd (retry hmac w deliveryId payload config ctx s))) = Suc (length (heap s))"
    and "dlv_id (heap (snd (retry hmac w deliveryId payload config ctx s)) ! length (heap s)) =
           delivery_id w"
    and "length (attempts (heap (snd (retry hmac w deliveryId payload config ctx s)) ! length (heap s))) = 1"
    and "deliveries (snd (retry hmac w deliveryId payload config ctx s)) =
           map_set (delivery_id w) (length (heap s)) (deliveries s)"
    and "eventHandlers (snd (retry hmac w deliveryId payload config ctx s)) = eventHandlers s"
proof -
  let ?s0 = "set_status a Retrying s"
  have a: "a < length (heap s)" using g by (simp add: deliveries_get_Some)
  have r0: "reaches_handler hmac payload config ?s0"
    using r reaches_handler_cong [of ?s0 s] by (simp add: set_status_fields)
  have l0: "length (heap ?s0) = length (heap s)" by (simp add: set_status_fields)
  have ne: "length (heap s) \<noteq> a" using a by simp
  note new = process_new_object [OF r0, where w = w and ctx = ctx]
  show "length (heap (snd (retry hmac w deliveryId payload config ctx s))) = Suc (length (heap s))"
    using new(1) by (simp add: retry_below [OF g b] retry_attempt_frame(1) l0)
  show "dlv_id (heap (snd (retry hmac w deliveryId payload config ctx s)) ! length (heap s)) =
           delivery_id w"
    using new(2) by (simp add: retry_below [OF g b] retry_attempt_frame(2) [OF ne] l0)
  show "length (attempts (heap (snd (retry hmac w deliveryId payload config ctx s)) ! length (heap s))) = 1"
    using new(3) by (simp add: retry_below [OF g b] retry_attempt_frame(2) [OF ne] l0)
  show "deliveries (snd (retry hmac w deliveryId payload config ctx s)) =
           map_set (delivery_id w) (length (heap s)) (deliveries s)"
    using new(4) by (simp add: retry_below [OF g b] retry_attempt_frame(3) l0 set_status_fields)
  show "eventHandlers (snd (retry hmac w deliveryId payload config ctx s)) = eventHandlers s"
    by (simp add: retry_below [OF g b] retry_attempt_frame(4))
qed

lemma retries_records:
  assumes "deliveries_get t id0 = Some a"
    and "reaches_handler hmac payload config t"
    and "int (length (attempts (heap t ! a))) + int (length ws) \<le> maxRetries (retry_policy_of config)"
    and "distinct (map delivery_id ws)"
    and "delivery_id ` set ws \<inter> fst ` set (deliveries t) = {}"
  shows "length (deliveries (retries hmac ws id0 payload config ctx t)) =
           length (deliveries t) + length ws \<and>
         fst ` set (deliveries (retries hmac ws id0 payload config ctx t)) =
           fst ` set (deliveries t) \<union> delivery_id ` set ws \<and>
         length (attempts (heap (retries hmac ws id0 payload config ctx t) ! a)) =
           length (attempts (heap t ! a)) + length ws \<and>
         deliveries_get (retries hmac ws id0 payload config ctx t) id0 = Some a"
  using assms
proof (induction ws arbitrary: t)
  case Nil
  then show ?case by simp
next
  case (Cons w ws)
  let ?t' = "snd (retry hmac w id0 payload config ctx t)"
  have g: "deliveries_get t id0 = Some a" by (rule Cons.prems(1))
  have r: "reaches_handler hmac payload config t" by (rule Cons.prems(2))
  have b: "int (length (attempts (heap t ! a))) < maxRetries (retry_policy_of config)"
    using Cons.prems(3) by simp
  have fresh: "delivery_id w \<notin> fst ` set (deliveries t)"
    using Cons.prems(5) by auto
  have key: "id0 \<in> fst ` set (deliveries t)"
    using g by (auto simp add: deliveries_get_Some dest: map_of_SomeD intro: rev_image_eqI)
  have ne: "delivery_id w \<noteq> id0" using fresh key by auto
  note step = retry_reaches [OF g b r, where w = w and ctx = ctx]
  have att: "length (attempts (heap ?t' ! a)) = Suc (length (attempts (heap t ! a)))"
    using retry_attempts_cases [OF g, of config hmac w payload ctx] b by auto
  have g': "deliveries_get ?t' id0 = Some a"
    using g ne by (simp add: deliveries_get_Some step(1) step(4) map_of_map_set)
  have r': "reaches_handler hmac payload config ?t'"
    using r reaches_handler_cong [OF step(5)] by simp
  have b': "int (length (attempts (heap ?t' ! a))) + int (length ws)
              \<le> maxRetries (retry_policy_of config)"
    using Cons.prems(3) att by simp
  have d': "distinct (map delivery_id ws)" using Cons.prems(4) by simp
  have keys': "fst ` set (deliveries ?t') = insert (delivery_id w) (fst ` set (deliveries t))"
    by (simp add: step(4) map_set_keys)
  have f': "delivery_id ` set ws \<inter> fst ` set (deliveries ?t') = {}"
    using Cons.prems(4) Cons.prems(5) by (auto simp add: keys')
  have len': "length (deliveries ?t') = Suc (length (deliveries t))"
    using fresh by (simp add: step(4) map_set_length)
  from Cons.IH [OF g' r' b' d' f']
  show ?case by (auto simp add: att len' keys')
qed

lemma process_then_retries:
  assumes r: "reaches_handler hmac payload config s"
    and d: "distinct (map delivery_id (w0 # ws))"
    and f: "delivery_id ` set (w0 # ws) \<inter> fst ` set (deliveries s) = {}"
    and m: "int (length ws) < maxRetries (retry_policy_of config)"
  shows "length (deliveries (retries hmac ws (delivery_id w0) payload config ctx
                   (snd (process hmac w0 payload config ctx s)))) =
           length (deliveries s) + length ws + 1 \<and>
         fst ` set (deliveries (retries hmac ws (delivery_id w0) payload config ctx
                   (snd (process hmac w0 payload config ctx s)))) =
           fst ` set (deliveries s) \<union> delivery_id ` set (w0 # ws) \<and>
         length (attempts (heap (retries hmac ws (delivery_id w0) payload config ctx
                   (snd (process hmac w0 payload config ctx s))) ! length (heap s))) =
           length ws + 1 \<and>
         deliveries_get (retries hmac ws (delivery_id w0) payload config ctx
                   (snd (process hmac w0 payload config ctx s))) (delivery_id w0) =
           Some (length (heap s))"
proof -
  let ?s1 = "snd (process hmac w0 payload config ctx s)"
  note new = process_new_object [OF r, where w = w0 and ctx = ctx]
  have fresh: "delivery_id w0 \<notin> fst ` set (deliveries s)" using f by auto
  have g: "deliveries_get ?s1 (delivery_id w0) = Some (length (heap s))"
    by (simp add: deliveries_get_Some new(1) new(4) map_of_map_set)
  have r1: "reaches_handler hmac payload config ?s1"
    using r reaches_handler_cong [OF process_handlers, of hmac payload config hmac w0 payload config ctx s]
    by simp
  have b: "int (length (attempts (heap ?s1 ! length (heap s)))) + int (length ws)
             \<le> maxRetries (retry_policy_of config)"
    using m new(3) by simp
  have d1: "distinct (map delivery_id ws)" using d by simp
  have keys: "fst ` set (deliveries ?s1) = insert (delivery_id w0) (fst ` set (deliveries s))"
    by (simp add: new(4) map_set_keys)
  have f1: "delivery_id ` set ws \<inter> fst ` set (deliveries ?s1) = {}"
    using d f by (auto simp add: keys)
  have len: "length (deliveries ?s1) = Suc (length (deliveries s))"
    using fresh by (simp add: new(4) map_set_length)
  from retries_records [OF g r1 b d1 f1, of ctx]
  show ?thesis by (auto simp add: len keys new(3))
qed


lemma fixture_reaches: "reaches_handler test_hmac push_payload push_config failing_processor"
  by (simp add: reaches_handler_def find_handler_def read_handler_def failing_processor_def on_def
      WebhookProcessor_new_def push_payload_def unsigned_payload_def push_config_def
      validate_defs)

lemma fixture_policy: "maxRetries (retry_policy_of push_config) = 3"
  by (simp add: retry_policy_of_def push_config_def getDefaultRetryPolicy_def)

lemma fixture_empty: "deliveries failing_processor = []" "heap failing_processor = []"
  by (simp_all add: failing_processor_def on_def WebhookProcessor_new_def)

lemma first_attempted_facts:
  "deliveries_get first_attempted ''delivery_0_a'' = Some 0"
  "length (attempts (heap first_attempted ! 0)) = 1"
  "length (deliveries first_attempted) = 1"
  using process_then_retries [of test_hmac push_payload push_config failing_processor world0 "[]"
      no_context]
  by (simp_all add: fixture_reaches fixture_policy fixture_empty first_attempted_def world0_def)

lemma first_attempted_reaches: "reaches_handler test_hmac push_payload push_config first_attempted"
  using fixture_reaches
    reaches_handler_cong [OF process_handlers,
      of test_hmac push_payload push_config test_hmac world0 push_payload push_config no_context
         failing_processor]
  by (simp add: first_attempted_def)

lemma twice_retried_facts:
  "deliveries_get twice_retried ''delivery_0_a'' = Some 0"
  "length (attempts (heap twice_retried ! 0)) = 3"
  "length (deliveries twice_retried) = 3"
  using process_then_retries [of test_hmac push_payload push_config failing_processor world0
      "[world1, world2]" no_context]
  by (simp_all add: fixture_reaches fixture_policy fixture_empty first_attempted_def
      twice_retried_def world0_def world1_def world2_def)

lemma show_int_3: "show_int 3 = ''3''"
  by (simp add: show_int_def show_nat.simps digit_char_def)

lemma show_int_1: "show_int 1 = ''1''"
  by (simp add: show_int_def show_nat.simps digit_char_def)

text \<open>
  C1. The guard of \<open>retry\<close> compares \<open>maxRetries\<close> with \<open>attempts.length\<close>, which counts
  the first attempt as well. Under the default policy (\<open>maxRetries = 3\<close>) a delivery
  that has had its first attempt and two retries holds three attempts, fewer than
  \<open>maxRetries + 1\<close>; the third call of \<open>retry\<close> adds no attempt and answers
  \<open>MAX_RETRIES_EXCEEDED\<close>, with the message \<open>Maximum retry attempts (3) exceeded\<close>, and
  the delivery still holds three attempts. Under a policy with \<open>maxRetries = 1\<close> the
  first call of \<open>retry\<close> is refused already, after the first attempt alone.
\<close>

theorem third_retry_refused_at_max:
  "maxRetries (retry_policy_of push_config) = 3 \<and>
   deliveries_get twice_retried ''delivery_0_a'' = Some 0 \<and>
   length (attempts (heap twice_retried ! 0)) = 3 \<and>
   fst (retry test_hmac world3 ''delivery_0_a'' push_payload push_config no_context twice_retried) =
     failure ''MAX_RETRIES_EXCEEDED'' ''Maximum retry attempts (3) exceeded'' \<and>
   length (attempts (heap (snd (retry test_hmac world3 ''delivery_0_a'' push_payload push_config
     no_context twice_retried)) ! 0)) = 3 \<and>
   maxRetries (retry_policy_of one_retry_config) = 1 \<and>
   deliveries_get first_attempted ''delivery_0_a'' = Some 0 \<and>
   length (attempts (heap first_attempted ! 0)) = 1 \<and>
   fst (retry test_hmac world1 ''delivery_0_a'' push_payload one_retry_config no_context
     first_attempted) =
     failure ''MAX_RETRIES_EXCEEDED'' ''Maximum retry attempts (1) exceeded'' \<and>
   length (attempts (heap (snd (retry test_hmac world1 ''delivery_0_a'' push_payload
     one_retry_config no_context first_attempted)) ! 0)) = 1"
proof -
  have g: "deliveries_get twice_retried ''delivery_0_a'' = Some 0" by (rule twice_retried_facts(1))
  have b: "maxRetries (retry_policy_of push_config) \<le> int (length (attempts (heap twice_retried ! 0)))"
    by (simp add: fixture_policy twice_retried_facts(2))
  have a: "0 < length (heap twice_retried)" using g by (simp add: deliveries_get_Some)
  have three: "maxRetries (retry_policy_of push_config) = 3 \<and>
   deliveries_get twice_retried ''delivery_0_a'' = Some 0 \<and>
   length (attempts (heap twice_retried ! 0)) = 3 \<and>
   fst (retry test_hmac world3 ''delivery_0_a'' push_payload push_config no_context twice_retried) =
     failure ''MAX_RETRIES_EXCEEDED'' ''Maximum retry attempts (3) exceeded'' \<and>
   length (attempts (heap (snd (retry test_hmac world3 ''delivery_0_a'' push_payload push_config
     no_context twice_retried)) ! 0)) = 3"
    using a
    by (simp add: retry_refused [OF g b] fixture_policy twice_retried_facts show_int_3
        set_status_fields)
  have p1: "maxRetries (retry_policy_of one_retry_config) = 1"
    by (simp add: retry_policy_of_def one_retry_config_def)
  have g1: "deliveries_get first_attempted ''delivery_0_a'' = Some 0"
    by (rule first_attempted_facts(1))
  have b1: "maxRetries (retry_policy_of one_retry_config)
              \<le> int (length (attempts (heap first_attempted ! 0)))"
    by (simp add: p1 first_attempted_facts(2))
  have a1: "0 < length (heap first_attempted)" using g1 by (simp add: deliveries_get_Some)
  have one: "maxRetries (retry_policy_of one_retry_config) = 1 \<and>
   deliveries_get first_attempted ''delivery_0_a'' = Some 0 \<and>
   length (attempts (heap first_attempted ! 0)) = 1 \<and>
   fst (retry test_hmac world1 ''delivery_0_a'' push_payload one_retry_config no_context
     first_attempted) =
     failure ''MAX_RETRIES_EXCEEDED'' ''Maximum retry attempts (1) exceeded'' \<and>
   length (attempts (heap (snd (retry test_hmac world1 ''delivery_0_a'' push_payload
     one_retry_config no_context first_attempted)) ! 0)) = 1"
    using a1
    by (simp add: retry_refused [OF g1 b1] p1 first_attempted_facts show_int_1
        set_status_fields)
  show ?thesis using three one by blast
qed

lemma length_getAllDeliveries: "length (getAllDeliveries s) = length (deliveries s)"
  by (simp add: getAllDeliveries_def)

text \<open>
  C8. A call of \<open>retry\<close> that finds the delivery, passes the max-retries check and
  whose \<open>process\<close> reaches a handler allocates one more delivery object, with one
  attempt, and enters it in the map under the id generated in this call, besides
  appending one attempt to the retried delivery. Hence, when the generated ids are
  distinct and not yet keys of the map, processing a payload and retrying that delivery
  \<open>k\<close> times (\<open>k < maxRetries\<close>, so that every retry passes the check) adds
  \<open>k + 1\<close> records to the store, one under each generated id, while the first of
  them collects \<open>k + 1\<close> attempts.
\<close>

theorem retry_records_new_delivery:
  "(deliveries_get s deliveryId = Some a \<and>
    int (length (attempts (heap s ! a))) < maxRetries (retry_policy_of config) \<and>
    reaches_handler hmac payload config s \<longrightarrow>
      length (heap (snd (retry hmac w deliveryId payload config ctx s))) = Suc (length (heap s)) \<and>
      dlv_id (heap (snd (retry hmac w deliveryId payload config ctx s)) ! length (heap s)) =
        delivery_id w \<and>
      length (attempts (heap (snd (retry hmac w deliveryId payload config ctx s)) ! length (heap s))) = 1 \<and>
      deliveries (snd (retry hmac w deliveryId payload config ctx s)) =
        map_set (delivery_id w) (length (heap s)) (deliveries s) \<and>
      length (attempts (heap (snd (retry hmac w deliveryId payload config ctx s)) ! a)) =
        Suc (length (attempts (heap s ! a)))) \<and>
   (reaches_handler hmac payload config s \<and>
    distinct (map delivery_id (w0 # ws)) \<and>
    delivery_id ` set (w0 # ws) \<inter> fst ` set (deliveries s) = {} \<and>
    int (length ws) < maxRetries (retry_policy_of config) \<longrightarrow>
      length (getAllDeliveries (retries hmac ws (delivery_id w0) payload config ctx
                (snd (process hmac w0 payload config ctx s)))) =
        length (getAllDeliveries s) + length ws + 1 \<and>
      fst ` set (deliveries (retries hmac ws (delivery_id w0) payload config ctx
                (snd (process hmac w0 payload config ctx s)))) =
        fst ` set (deliveries s) \<union> delivery_id ` set (w0 # ws) \<and>
      length (attempts (heap (retries hmac ws (delivery_id w0) payload config ctx
                (snd (process hmac w0 payload config ctx s))) ! length (heap s))) =
        length ws + 1)"
proof (intro conjI impI)
  assume h: "deliveries_get s deliveryId = Some a \<and>
    int (length (attempts (heap s ! a))) < maxRetries (retry_policy_of config) \<and>
    reaches_handler hmac payload config s"
  then have g: "deliveries_get s deliveryId = Some a"
    and b: "int (length (attempts (heap s ! a))) < maxRetries (retry_policy_of config)"
    and r: "reaches_handler hmac payload config s" by simp_all
  note step = retry_reaches [OF g b r, where w = w and ctx = ctx]
  show "length (heap (snd (retry hmac w deliveryId payload config ctx s))) = Suc (length (heap s))"
    by (rule step(1))
  show "dlv_id (heap (snd (retry hmac w deliveryId payload config ctx s)) ! length (heap s)) =
        delivery_id w"
    by (rule step(2))
  show "length (attempts (heap (snd (retry hmac w deliveryId payload config ctx s)) ! length (heap s))) = 1"
    by (rule step(3))
  show "deliveries (snd (retry hmac w deliveryId payload config ctx s)) =
        map_set (delivery_id w) (length (heap s)) (deliveries s)"
    by (rule step(4))
  show "length (attempts (heap (snd (retry hmac w deliveryId payload config ctx s)) ! a)) =
        Suc (length (attempts (heap s ! a)))"
    using retry_attempts_cases [OF g, of config hmac w payload ctx] b by auto
next
  assume h: "reaches_handler hmac payload config s \<and>
    distinct (map delivery_id (w0 # ws)) \<and>
    delivery_id ` set (w0 # ws) \<inter> fst ` set (deliveries s) = {} \<and>
    int (length ws) < maxRetries (retry_policy_of config)"
  then have r: "reaches_handler hmac payload config s"
    and d: "distinct (map delivery_id (w0 # ws))"
    and f: "delivery_id ` set (w0 # ws) \<inter> fst ` set (deliveries s) = {}"
    and m: "int (length ws) < maxRetries (retry_policy_of config)" by simp_all
  note all = process_then_retries [OF r d f m, of ctx]
  show "length (getAllDeliveries (retries hmac ws (delivery_id w0) payload config ctx
                (snd (process hmac w0 payload config ctx s)))) =
        length (getAllDeliveries s) + length ws + 1"
    using all by (simp add: length_getAllDeliveries)
  show "fst ` set (deliveries (retries hmac ws (delivery_id w0) payload config ctx
                (snd (process hmac w0 payload config ctx s)))) =
        fst ` set (deliveries s) \<union> delivery_id ` set (w0 # ws)"
    using all by blast
  show "length (attempts (heap (retries hmac ws (delivery_id w0) payload config ctx
                (snd (process hmac w0 payload config ctx s))) ! length (heap s))) =
        length ws + 1"
    using all by blast
qed

theorem retry_records_new_delivery_witness:
  "deliveries_get first_attempted ''delivery_0_a'' = Some 0 \<and>
   reaches_handler test_hmac push_payload push_config first_attempted \<and>
   length (heap first_attempted) = 1 \<and>
   dlv_id (heap (snd (retry test_hmac world1 ''delivery_0_a'' push_payload push_config
     no_context first_attempted)) ! 1) = ''delivery_1_b'' \<and>
   length (attempts (heap (snd (retry test_hmac world1 ''delivery_0_a'' push_payload push_config
     no_context first_attempted)) ! 1)) = 1 \<and>
   length (attempts (heap (snd (retry test_hmac world1 ''delivery_0_a'' push_payload push_config
     no_context first_attempted)) ! 0)) = 2 \<and>
   length (getAllDeliveries failing_processor) = 0 \<and>
   length (getAllDeliveries twice_retried) = 3 \<and>
   fst ` set (deliveries twice_retried) = {''delivery_0_a'', ''delivery_1_b'', ''delivery_2_c''}"
proof -
  have l: "length (heap first_attempted) = 1"
    using process_new_object(1) [OF fixture_reaches, of world0 no_context]
    by (simp add: first_attempted_def fixture_empty)
  have a: "dlv_id (heap (snd (retry test_hmac world1 ''delivery_0_a'' push_payload push_config
     no_context first_attempted)) ! 1) = ''delivery_1_b'' \<and>
   length (attempts (heap (snd (retry test_hmac world1 ''delivery_0_a'' push_payload push_config
     no_context first_attempted)) ! 1)) = 1 \<and>
   length (attempts (heap (snd (retry test_hmac world1 ''delivery_0_a'' push_payload push_config
     no_context first_attempted)) ! 0)) = 2"
    using retry_records_new_delivery [of first_attempted "''delivery_0_a''" 0 push_config test_hmac push_payload
        world1 no_context]
    by (simp add: first_attempted_facts first_attempted_reaches fixture_policy l world1_def)
  have b: "length (getAllDeliveries twice_retried) = 3 \<and>
   fst ` set (deliveries twice_retried) = {''delivery_0_a'', ''delivery_1_b'', ''delivery_2_c''}"
    using retry_records_new_delivery [of failing_processor _ _ push_config test_hmac push_payload _ no_context world0
        "[world1, world2]"]
    by (auto simp add: fixture_reaches fixture_policy fixture_empty length_getAllDeliveries
        twice_retried_def first_attempted_def world0_def world1_def world2_def)
  show ?thesis
    using a b l
    by (simp add: first_attempted_facts first_attempted_reaches length_getAllDeliveries
        fixture_empty)
qed


section \<open>Properties of the OAuth providers\<close>

lemma hex_digit_inj: "d < 16 \<Longrightarrow> e < 16 \<Longrightarrow> hex_digit d = hex_digit e \<Longrightarrow> d = e"
  unfolding hex_digit_def
  using nth_eq_iff_index_eq [of "''0123456789abcdef''" d e] by simp

lemma hex_byte_inj:
  assumes "hex_byte b = hex_byte c"
  shows "b = c"
proof -
  have lb: "unat b < 256" using unsigned_less [of b, where ?'a = nat] by simp
  have lc: "unat c < 256" using unsigned_less [of c, where ?'a = nat] by simp
  have hi: "unat b div 16 = unat c div 16"
    using assms lb lc by (intro hex_digit_inj) (simp_all add: hex_byte_def)
  have lo: "unat b mod 16 = unat c mod 16"
    using assms by (intro hex_digit_inj) (simp_all add: hex_byte_def)
  have "unat b = unat c"
    using hi lo by (metis div_mult_mod_eq)
  then show ?thesis by (simp add: word_unat_eq_iff)
qed

lemma to_hex_Cons:
  "to_hex (b # bs) = hex_digit (unat b div 16) # hex_digit (unat b mod 16) # to_hex bs"
  by (simp add: to_hex_def hex_byte_def)

lemma to_hex_inj: "to_hex xs = to_hex ys \<Longrightarrow> xs = ys"
proof (induction xs arbitrary: ys)
  case Nil
  then show ?case by (cases ys) (simp_all add: to_hex_Cons, simp add: to_hex_def)
next
  case (Cons x xs)
  show ?case
  proof (cases ys)
    case Nil
    with Cons.prems show ?thesis by (simp add: to_hex_Cons) (simp add: to_hex_def)
  next
    case (Cons y ys')
    with Cons.prems have "hex_byte x = hex_byte y" and "to_hex xs = to_hex ys'"
      by (simp_all add: to_hex_Cons hex_byte_def)
    then show ?thesis using Cons Cons.IH hex_byte_inj by blast
  qed
qed

lemma getAuthorizationUrl_state:
  "getAuthorizationUrl rt w p st = Inr r \<Longrightarrow> ar_state r = to_hex (state_bytes w)"
  by (cases "provider_class p")
     (auto simp add: getAuthorizationUrl_def pkce_getAuthorizationUrl_def
        plain_getAuthorizationUrl_def generateState_def Let_def split: sum.splits)

lemma getAuthorizationUrl_ignores_state:
  "getAuthorizationUrl rt w p (st\<lparr>os_state := x\<rparr>) = getAuthorizationUrl rt w p st"
  by (cases "provider_class p")
     (simp_all add: getAuthorizationUrl_def pkce_getAuthorizationUrl_def
        plain_getAuthorizationUrl_def base_params_def Let_def)

lemma initializeOAuth_state:
  "init_data (initializeOAuth rt w integration ctx) = Some d \<Longrightarrow>
   state' d = to_hex (state_bytes w)"
  by (auto simp add: initializeOAuth_def oauth_init_failed_def
      split: option.splits sum.splits dest: getAuthorizationUrl_state)

lemma initializeOAuth_ignores_facade_state:
  "initializeOAuth rt (w\<lparr>facade_state := x\<rparr>) integration ctx = initializeOAuth rt w integration ctx"
proof -
  have "\<And>p st. getAuthorizationUrl rt (w\<lparr>facade_state := x\<rparr>) p st = getAuthorizationUrl rt w p st"
    subgoal for p st
      by (cases "provider_class p")
         (simp_all add: getAuthorizationUrl_def pkce_getAuthorizationUrl_def
        plain_getAuthorizationUrl_def generateState_def generatePKCEChallenge_def Let_def)
    done
  moreover have "\<And>p a b c d e. getAuthorizationUrl rt w p
      \<lparr>os_state = x, codeVerifier = a, os_redirectUri = b, os_scopes = c, os_userId = d, os_metadata = e\<rparr>
      = getAuthorizationUrl rt w p
      \<lparr>os_state = facade_state w, codeVerifier = a, os_redirectUri = b, os_scopes = c, os_userId = d, os_metadata = e\<rparr>"
    subgoal for p a b c d e
      using getAuthorizationUrl_ignores_state [where rt = rt and w = w and p = p and x = x and
        st = "\<lparr>os_state = facade_state w, codeVerifier = a, os_redirectUri = b, os_scopes = c,
              os_userId = d, os_metadata = e\<rparr>"]
      by simp
    done
  ultimately show ?thesis
    by (simp add: initializeOAuth_def split: option.splits)
qed

lemma case_Inr_ex:
  "\<exists>u. f = Inr u \<Longrightarrow> \<exists>r. (case f of Inl e \<Rightarrow> Inl e | Inr u \<Rightarrow> Inr (g u)) = Inr r"
  by auto

lemma getAuthorizationUrl_succeeds:
  assumes "authUrl (provider_config p) = Some b"
    and "\<forall>ps. url_with_params rt b ps \<noteq> None"
  shows "\<exists>r. getAuthorizationUrl rt w p st = Inr r"
proof -
  have u: "\<And>ps. \<exists>u. buildAuthUrl rt (authUrl (provider_config p)) ps = Inr u"
    using assms by (auto simp add: buildAuthUrl_def split: option.splits)
  have pk: "\<exists>r. pkce_getAuthorizationUrl rt w p st = Inr r"
    unfolding pkce_getAuthorizationUrl_def Let_def by (rule case_Inr_ex) (rule u)
  have pl: "\<exists>r. plain_getAuthorizationUrl sep rt w p st = Inr r"
    for sep
    unfolding plain_getAuthorizationUrl_def Let_def by (rule case_Inr_ex) (rule u)
  show ?thesis
    using pk pl by (cases "provider_class p") (simp_all add: getAuthorizationUrl_def)
qed

lemma initializeOAuth_succeeds:
  assumes "int_oauth integration = Some oauth"
    and "oauthProvider integration = Some p"
    and "authUrl (provider_config p) = Some b"
    and "\<forall>ps. url_with_params rt b ps \<noteq> None"
    and "\<forall>d. emitEvent (authorized_handlers integration) d ctx = None"
  shows "\<exists>u. initializeOAuth rt w integration ctx =
           \<lparr>init_success = True,
            init_data = Some \<lparr>authUrl' = u, state' = to_hex (state_bytes w)\<rparr>,
            init_error = None\<rparr>"
proof -
  let ?st = "\<lparr>os_state = facade_state w, codeVerifier = None,
                   os_redirectUri = redirectUri oauth, os_scopes = scopes oauth,
                   os_userId = userId ctx, os_metadata = metadata ctx\<rparr>"
  obtain r where r: "getAuthorizationUrl rt w p ?st = Inr r"
    using getAuthorizationUrl_succeeds [OF assms(3) assms(4)] by blast
  have "ar_state r = to_hex (state_bytes w)"
    using r by (rule getAuthorizationUrl_state)
  then show ?thesis
    using assms(1) assms(2) assms(5) r by (simp add: initializeOAuth_def)
qed

text \<open>
  C9. For each of the five provider classes, every input \<open>OAuthState\<close> and every runtime: the state
  token \<open>getAuthorizationUrl\<close> returns is the hex text of the 16 bytes drawn from
  \<open>crypto.randomBytes\<close>, and the result does not depend on the \<open>state\<close> field of the
  input. So the token \<open>initializeOAuth\<close> returns is that hex text too, whatever the
  facade generated for the input state, and two successful calls with the same
  integration and context whose random draws differ return different tokens. The call
  succeeds whenever OAuth is configured, the runtime accepts the provider's
  authorization URL and no subscriber throws.
\<close>

theorem state_token_is_fresh:
  "(getAuthorizationUrl rt w p st = Inr r \<longrightarrow> ar_state r = to_hex (state_bytes w)) \<and>
   getAuthorizationUrl rt w p (st\<lparr>os_state := x\<rparr>) = getAuthorizationUrl rt w p st \<and>
   (init_data (initializeOAuth rt w integration ctx) = Some d \<longrightarrow>
      state' d = to_hex (state_bytes w)) \<and>
   initializeOAuth rt (w\<lparr>facade_state := x\<rparr>) integration ctx =
     initializeOAuth rt w integration ctx \<and>
   (init_data (initializeOAuth rt w1 integration ctx) = Some d1 \<and>
    init_data (initializeOAuth rt w2 integration ctx) = Some d2 \<and>
    state_bytes w1 \<noteq> state_bytes w2 \<longrightarrow> state' d1 \<noteq> state' d2) \<and>
   (int_oauth integration = Some oauth \<and> oauthProvider integration = Some p \<and>
    authUrl (provider_config p) = Some b \<and> (\<forall>ps. url_with_params rt b ps \<noteq> None) \<and>
    (\<forall>e. emitEvent (authorized_handlers integration) e ctx = None) \<longrightarrow>
      (\<exists>u. initializeOAuth rt w integration ctx =
         \<lparr>init_success = True,
          init_data = Some \<lparr>authUrl' = u, state' = to_hex (state_bytes w)\<rparr>,
          init_error = None\<rparr>))"
proof (intro conjI impI)
  show "getAuthorizationUrl rt w p st = Inr r \<Longrightarrow> ar_state r = to_hex (state_bytes w)"
    by (rule getAuthorizationUrl_state)
  show "getAuthorizationUrl rt w p (st\<lparr>os_state := x\<rparr>) = getAuthorizationUrl rt w p st"
    by (rule getAuthorizationUrl_ignores_state)
  show "init_data (initializeOAuth rt w integration ctx) = Some d \<Longrightarrow>
      state' d = to_hex (state_bytes w)"
    by (rule initializeOAuth_state)
  show "initializeOAuth rt (w\<lparr>facade_state := x\<rparr>) integration ctx =
     initializeOAuth rt w integration ctx"
    by (rule initializeOAuth_ignores_facade_state)
next
  assume h: "init_data (initializeOAuth rt w1 integration ctx) = Some d1 \<and>
    init_data (initializeOAuth rt w2 integration ctx) = Some d2 \<and>
    state_bytes w1 \<noteq> state_bytes w2"
  then have "state' d1 = to_hex (state_bytes w1)" and "state' d2 = to_hex (state_bytes w2)"
    using initializeOAuth_state by blast+
  with h show "state' d1 \<noteq> state' d2" using to_hex_inj by metis
next
  assume "int_oauth integration = Some oauth \<and> oauthProvider integration = Some p \<and>
    authUrl (provider_config p) = Some b \<and> (\<forall>ps. url_with_params rt b ps \<noteq> None) \<and>
    (\<forall>e. emitEvent (authorized_handlers integration) e ctx = None)"
  then show "\<exists>u. initializeOAuth rt w integration ctx =
         \<lparr>init_success = True,
          init_data = Some \<lparr>authUrl' = u, state' = to_hex (state_bytes w)\<rparr>,
          init_error = None\<rparr>"
    using initializeOAuth_succeeds [of integration oauth p b rt ctx w] by blast
qed

lemmas oauth_eval = initializeOAuth_def github_integration_def GitHubOAuth_new_def
  github_config_def getAuthorizationUrl_def pkce_getAuthorizationUrl_def generateState_def
  to_hex_def hex_byte_def hex_digit_def base_params_def buildAuthUrl_def test_runtime_def
  or_default_def GITHUB_AUTH_URL_def GITHUB_TOKEN_URL_def GITHUB_USER_URL_def
  generatePKCEChallenge_def test_context_def Let_def

lemma github_init1:
  "init_data (initializeOAuth test_runtime oauth_world1 github_integration test_context) =
     Some \<lparr>authUrl' = ''https://github.com/login/oauth/authorize?client_id=test-client-id&redirect_uri=http://localhost:3000/callback&scope=repo&state=00112233445566778899aabbccddeeff&response_type=code'',
           state' = ''00112233445566778899aabbccddeeff''\<rparr>"
  by (simp add: oauth_eval oauth_world1_def)

lemma github_init2:
  "init_data (initializeOAuth test_runtime oauth_world2 github_integration test_context) =
     Some \<lparr>authUrl' = ''https://github.com/login/oauth/authorize?client_id=test-client-id&redirect_uri=http://localhost:3000/callback&scope=repo&state=01112233445566778899aabbccddeeff&response_type=code'',
           state' = ''01112233445566778899aabbccddeeff''\<rparr>"
  by (simp add: oauth_eval oauth_world2_def)

lemma slack_provider:
  "initializeOAuthProvider Slack ''slack-bot'' (int_oauth slack_integration) =
     Inr (oauthProvider slack_integration)"
  by (simp add: initializeOAuthProvider_def slack_integration_def)

lemma slack_init1:
  "init_data (initializeOAuth test_runtime oauth_world1 slack_integration test_context) =
     Some \<lparr>authUrl' = ''https://slack.com/oauth/v2/authorize?client_id=test-client-id&redirect_uri=http://localhost:3000/callback&scope=channels:read,chat:write&state=00112233445566778899aabbccddeeff&response_type=code'',
           state' = ''00112233445566778899aabbccddeeff''\<rparr>"
  by (simp add: initializeOAuth_def slack_integration_def SlackOAuth_new_def slack_config_def
      getAuthorizationUrl_def plain_getAuthorizationUrl_def generateState_def to_hex_def
      hex_byte_def hex_digit_def base_params_def buildAuthUrl_def test_runtime_def
      or_default_def SLACK_AUTH_URL_def SLACK_TOKEN_URL_def SLACK_USER_URL_def
      test_context_def Let_def oauth_world1_def)

theorem state_token_is_fresh_witness:
  "init_success (initializeOAuth test_runtime oauth_world1 github_integration test_context) \<and>
   map_option state' (init_data (initializeOAuth test_runtime oauth_world1 github_integration
     test_context)) = Some ''00112233445566778899aabbccddeeff'' \<and>
   map_option state' (init_data (initializeOAuth test_runtime oauth_world2 github_integration
     test_context)) = Some ''01112233445566778899aabbccddeeff'' \<and>
   facade_state oauth_world1 = facade_state oauth_world2 \<and>
   state_bytes oauth_world1 \<noteq> state_bytes oauth_world2 \<and>
   map_option state' (init_data (initializeOAuth test_runtime oauth_world1 github_integration
     test_context)) \<noteq>
   map_option state' (init_data (initializeOAuth test_runtime oauth_world2 github_integration
     test_context)) \<and>
   map_option state' (init_data (initializeOAuth test_runtime oauth_world1 slack_integration
     test_context)) = Some (to_hex (state_bytes oauth_world1))"
proof -
  have b: "state_bytes oauth_world1 \<noteq> state_bytes oauth_world2"
    by (simp add: oauth_world1_def oauth_world2_def)
  have "state' \<lparr>authUrl' = ''https://github.com/login/oauth/authorize?client_id=test-client-id&redirect_uri=http://localhost:3000/callback&scope=repo&state=00112233445566778899aabbccddeeff&response_type=code'',
           state' = ''00112233445566778899aabbccddeeff''\<rparr> \<noteq>
        state' \<lparr>authUrl' = ''https://github.com/login/oauth/authorize?client_id=test-client-id&redirect_uri=http://localhost:3000/callback&scope=repo&state=01112233445566778899aabbccddeeff&response_type=code'',
           state' = ''01112233445566778899aabbccddeeff''\<rparr>"
    using state_token_is_fresh [where rt = test_runtime and integration = github_integration
        and ctx = test_context and ?w1.0 = oauth_world1 and ?w2.0 = oauth_world2] b
      github_init1 github_init2
    by blast
  moreover have "facade_state oauth_world1 = facade_state oauth_world2"
    by (simp add: oauth_world1_def oauth_world2_def)
  moreover have "init_success (initializeOAuth test_runtime oauth_world1 github_integration
     test_context)"
  proof -
    have "int_oauth github_integration = Some github_config \<and>
      oauthProvider github_integration = Some (GitHubOAuth_new github_config) \<and>
      authUrl (provider_config (GitHubOAuth_new github_config)) = Some GITHUB_AUTH_URL \<and>
      (\<forall>ps. url_with_params test_runtime GITHUB_AUTH_URL ps \<noteq> None) \<and>
      (\<forall>e. emitEvent (authorized_handlers github_integration) e test_context = None)"
      by (simp add: github_integration_def GitHubOAuth_new_def github_config_def
          or_default_def test_runtime_def)
    with state_token_is_fresh [where rt = test_runtime and integration = github_integration
        and ctx = test_context and w = oauth_world1 and oauth = github_config
        and p = "GitHubOAuth_new github_config" and b = GITHUB_AUTH_URL,
        THEN conjunct2, THEN conjunct2, THEN conjunct2, THEN conjunct2, THEN conjunct2]
    obtain u where "initializeOAuth test_runtime oauth_world1 github_integration test_context =
         \<lparr>init_success = True,
          init_data = Some \<lparr>authUrl' = u, state' = to_hex (state_bytes oauth_world1)\<rparr>,
          init_error = None\<rparr>"
      by blast
    then show ?thesis by simp
  qed
  moreover have "map_option state' (init_data (initializeOAuth test_runtime oauth_world1
     slack_integration test_context)) = Some (to_hex (state_bytes oauth_world1))"
    using state_token_is_fresh [where rt = test_runtime and integration = slack_integration
        and ctx = test_context and w = oauth_world1,
        THEN conjunct2, THEN conjunct2, THEN conjunct1] slack_init1
    by force
  ultimately show ?thesis
    using b by (simp add: github_init1 github_init2)
qed

text \<open>
  C10. The constructor of the custom provider, given a configuration whose \<open>tokenUrl\<close>
  or \<open>authUrl\<close> is absent (or empty), throws the error
  \<open>Custom OAuth provider requires authUrl and tokenUrl\<close>. The check is the first
  statement of the constructor: no provider object comes to exist, so none of the
  methods that send requests can be called on it.
\<close>

theorem custom_provider_requires_urls:
  "\<not> truthy (tokenUrl cfg) \<or> \<not> truthy (authUrl cfg) \<Longrightarrow>
   CustomOAuth_new nm cfg = Inl (Error ''Custom OAuth provider requires authUrl and tokenUrl'')"
  by (auto simp add: CustomOAuth_new_def)

theorem custom_provider_requires_urls_witness:
  "\<not> truthy (tokenUrl custom_config) \<and>
   CustomOAuth_new ''my-custom-service'' custom_config =
     Inl (Error ''Custom OAuth provider requires authUrl and tokenUrl'')"
proof -
  have h: "\<not> truthy (tokenUrl custom_config) \<or> \<not> truthy (authUrl custom_config)"
    by (simp add: custom_config_def truthy_def)
  show ?thesis
    using custom_provider_requires_urls [OF h, of "''my-custom-service''"]
    by (simp add: custom_config_def truthy_def)
qed

end
